theory Spec2Isabelle
  imports Main
begin

section \<open>Python values used by the deployer\<close>

text \<open>
  The exceptions the deployer distinguishes: \<^verbatim>\<open>subprocess.CalledProcessError\<close> has a
  handler of its own in \<^verbatim>\<open>_push_mvp_files\<close>, a missing dictionary key raises
  \<^verbatim>\<open>KeyError\<close>, and every other exception is only ever caught as \<^verbatim>\<open>Exception\<close>.
  Each carries what \<^verbatim>\<open>str(e)\<close> needs.
\<close>

datatype exn = CalledProcessError string | KeyError string | OtherError string

definition quote :: "string \<Rightarrow> string" where
  "quote s = [CHR 0x27] @ s @ [CHR 0x27]"

fun str :: "exn \<Rightarrow> string" where
  "str (CalledProcessError m) = m"
| "str (KeyError k) = quote k"
| "str (OtherError m) = m"

text \<open>\<^verbatim>\<open>str(n)\<close> of a non-negative integer: its decimal digits.\<close>

definition digit :: "nat \<Rightarrow> char" where
  "digit d =
     (if d = 0 then CHR ''0'' else if d = 1 then CHR ''1'' else if d = 2 then CHR ''2''
      else if d = 3 then CHR ''3'' else if d = 4 then CHR ''4'' else if d = 5 then CHR ''5''
      else if d = 6 then CHR ''6'' else if d = 7 then CHR ''7'' else if d = 8 then CHR ''8''
      else CHR ''9'')"

fun str_nat :: "nat \<Rightarrow> string" where
  "str_nat n = (if n < 10 then [digit n] else str_nat (n div 10) @ [digit (n mod 10)])"

declare str_nat.simps [simp del]

definition str_int :: "int \<Rightarrow> string" where
  "str_int i = (if i < 0 then CHR ''-'' # str_nat (nat (- i)) else str_nat (nat i))"

text \<open>
  Truthiness of the result of \<^verbatim>\<open>credentials.get(key)\<close> and of an optional string
  argument: \<^verbatim>\<open>None\<close> and the empty string are false.
\<close>

definition truthy :: "string option \<Rightarrow> bool" where
  "truthy v = (case v of None \<Rightarrow> False | Some s \<Rightarrow> s \<noteq> [])"

text \<open>
  \<^verbatim>\<open>str.title()\<close> on ASCII text: a letter that follows a letter is lowered, any other
  letter is raised. The model applies it to a key of \<^verbatim>\<open>self.platforms\<close> only (one of
  \<^verbatim>\<open>render\<close>, \<^verbatim>\<open>railway\<close> and \<^verbatim>\<open>vercel\<close>), in the message of a failed
  provisioning.
\<close>

definition is_lower :: "char \<Rightarrow> bool" where
  "is_lower c = ((97::nat) \<le> of_char c \<and> of_char c \<le> (122::nat))"

definition is_upper :: "char \<Rightarrow> bool" where
  "is_upper c = ((65::nat) \<le> of_char c \<and> of_char c \<le> (90::nat))"

definition to_upper :: "char \<Rightarrow> char" where
  "to_upper c = (if is_lower c then char_of (of_char c - (32::nat)) else c)"

definition to_lower :: "char \<Rightarrow> char" where
  "to_lower c = (if is_upper c then char_of (of_char c + (32::nat)) else c)"

fun title_from :: "bool \<Rightarrow> string \<Rightarrow> string" where
  "title_from after_letter [] = []"
| "title_from after_letter (c # cs) =
     (if is_lower c \<or> is_upper c
      then (if after_letter then to_lower c else to_upper c) # title_from True cs
      else c # title_from False cs)"

definition title :: "string \<Rightarrow> string" where
  "title s = title_from False s"

text \<open>\<^verbatim>\<open>str(list_of_keys)\<close> for keys that need no escaping: each key in single quotes,
  separated by a comma and a space, in square brackets.\<close>

fun join_keys :: "string list \<Rightarrow> string" where
  "join_keys [] = []"
| "join_keys [k] = quote k"
| "join_keys (k # ks) = quote k @ '', '' @ join_keys ks"

definition str_list :: "string list \<Rightarrow> string" where
  "str_list ks = ''['' @ join_keys ks @ '']''"

text \<open>Decoded JSON scalars, their truthiness and their \<^verbatim>\<open>str()\<close>.\<close>

datatype json = JNull | JBool bool | JNum int | JStr string

fun json_truthy :: "json \<Rightarrow> bool" where
  "json_truthy JNull = False"
| "json_truthy (JBool b) = b"
| "json_truthy (JNum n) = (n \<noteq> 0)"
| "json_truthy (JStr s) = (s \<noteq> [])"

fun json_str :: "json \<Rightarrow> string" where
  "json_str JNull = ''None''"
| "json_str (JBool b) = (if b then ''True'' else ''False'')"
| "json_str (JNum n) = str_int n"
| "json_str (JStr s) = s"

type_synonym json_object = "(string \<times> json) list"

text \<open>\<^verbatim>\<open>d[key]\<close> raises \<^verbatim>\<open>KeyError\<close> on a missing key; \<^verbatim>\<open>d.get(key, default)\<close> does not.\<close>

definition subscript :: "json_object \<Rightarrow> string \<Rightarrow> exn + json" where
  "subscript d k = (case map_of d k of None \<Rightarrow> Inl (KeyError k) | Some v \<Rightarrow> Inr v)"

definition get_default :: "json_object \<Rightarrow> string \<Rightarrow> json \<Rightarrow> json" where
  "get_default d k dflt = (case map_of d k of None \<Rightarrow> dflt | Some v \<Rightarrow> v)"


section \<open>The outside world\<close>

text \<open>
  Everything the deployer cannot decide by itself is an answer of the world: the clock,
  what each HTTP request returns or raises, what each git command does, what the source
  directory holds. Each request site of the code is run at most once per deployment, so
  one answer per site describes a whole run.

  A reply is a response (status code, body text, and the decoded body, or the text of the
  exception that decoding it or reading it as an object raises), or the text of the
  exception that the \<^verbatim>\<open>requests\<close> call raised (timeout, transport error).
\<close>

datatype reply = Response nat string "string + json_object" | Raised string

datatype site =
    GithubCreateRepo | GithubListRepos | SecretPut string
  | GodaddyAvailable | GodaddyPurchase | GodaddyRecords
  | DatadogDashboard | MonitorHealth | MonitorUptime
  | WorkflowPut | ProtectionPut | EnvironmentPut string
  | MailchimpCampaigns | SendgridTemplates | MailgunStats
  | VerifyHealth | VerifyMain

datatype git = Clone | Add | Commit | Push

text \<open>
  The trace records what leaves the process, in order: the calls \<^verbatim>\<open>deploy_mvp\<close> makes
  on its collaborators (method name and string arguments), HTTP requests (URL, and the
  timeout when one is passed), external commands and copies into the workspace.
\<close>

datatype event =
    Call string "string list"
  | HttpGet string "nat option"
  | HttpPost string
  | HttpPut string
  | Run "string list"
  | CopyTree string string
  | CopyFile string string

text \<open>
  What a platform adapter returns (\<^verbatim>\<open>deployment_automation.py\<close>): every path of
  \<^verbatim>\<open>create_service\<close>, \<^verbatim>\<open>deploy_project\<close> and \<^verbatim>\<open>create_deployment\<close> returns a
  dictionary, with \<^verbatim>\<open>url\<close> and a \<^verbatim>\<open>service_id\<close> or \<^verbatim>\<open>deployment_id\<close> when
  \<^verbatim>\<open>success\<close> is true and with \<^verbatim>\<open>error\<close> when it is false; their own catch-all
  handlers keep them from raising. The world gives the result of each method together
  with the HTTP requests the method has sent; the model does not derive them.
\<close>

datatype provision = Provisioned string "string option" "string option" | ProvisionFailed string

record world =
  clock_repo :: nat
  clock_push :: nat
  answer :: "site \<Rightarrow> reply"
  makedirs_error :: "string option"
  subprocess :: "git \<Rightarrow> exn option"
  listing :: "string \<Rightarrow> (string \<times> bool) list"
  copy_error :: "string \<Rightarrow> string option"
  repos_listed :: "string + json_object list"
  getenv :: "string \<Rightarrow> string option"
  create_service :: provision
  create_service_requests :: "event list"
  deploy_project :: provision
  deploy_project_requests :: "event list"
  create_deployment :: provision
  create_deployment_requests :: "event list"

text \<open>
  \<^verbatim>\<open>clock_repo\<close> and \<^verbatim>\<open>clock_push\<close> are \<^verbatim>\<open>int(time.time())\<close> at lines 59 and 199 of
  \<^verbatim>\<open>autonomous_deployer.py\<close>; \<^verbatim>\<open>listing\<close> is \<^verbatim>\<open>glob(mvp_path/*)\<close> as base names,
  each with \<^verbatim>\<open>os.path.isdir\<close>; \<^verbatim>\<open>copy_error\<close> is the exception copying an item
  raises, if any; \<^verbatim>\<open>repos_listed\<close> is the decoded body of the answer to
  \<^verbatim>\<open>GET /user/repos\<close>, a list of objects, or the text of the exception that decoding
  it raises; \<^verbatim>\<open>getenv\<close> is \<^verbatim>\<open>os.getenv\<close> after the \<^verbatim>\<open>load_dotenv\<close> calls of
  \<^verbatim>\<open>CredentialManager\<close>.
\<close>

section \<open>Effects\<close>

text \<open>
  The lines \<^verbatim>\<open>deploy_mvp\<close> appends to \<^verbatim>\<open>deployment_log\<close>, one constructor per
  message, with the value the line is formatted from as argument. \<^verbatim>\<open>DeployingTo p\<close>
  is the line "Deploying to \<^verbatim>\<open>p.title()\<close>..." for the requested identifier \<^verbatim>\<open>p\<close>.
\<close>

datatype log_entry =
    CreatingRepository
  | RepositoryCreated string
  | PushingFiles
  | FilesPushed
  | SettingUpEnvironment
  | EnvironmentConfigured
  | EnvironmentIssues
  | DeployingTo string
  | DeployedTo string
  | SettingUpDomain string
  | DomainConfigured string
  | DomainFailed string
  | SettingUpMonitoring
  | MonitoringConfigured
  | MonitoringFailed string
  | SettingUpCICD
  | CICDConfigured
  | CICDFailed string
  | SettingUpEmail
  | EmailConfigured
  | EmailFailed string
  | SettingUpBusiness
  | BusinessConfigured
  | BusinessFailed string
  | RunningVerification
  | DeploymentFailed string

text \<open>
  The part of the file system \<^verbatim>\<open>_push_mvp_files\<close> works on: the process's working
  directory and the directories that exist. A step on it returns a value or an exception,
  the events it caused, and the file system it leaves.
\<close>

record fs =
  cwd :: string
  dirs :: "string set"

type_synonym 'a io = "fs \<Rightarrow> (exn + 'a) \<times> event list \<times> fs"

definition io_return :: "'a \<Rightarrow> 'a io" where
  "io_return x f = (Inr x, [], f)"

definition io_raise :: "exn \<Rightarrow> 'a io" where
  "io_raise e f = (Inl e, [], f)"

definition io_bind :: "'a io \<Rightarrow> ('a \<Rightarrow> 'b io) \<Rightarrow> 'b io" where
  "io_bind m k f =
     (case m f of
        (Inl e, evs, f') \<Rightarrow> (Inl e, evs, f')
      | (Inr x, evs, f') \<Rightarrow> (case k x f' of (r, evs', f'') \<Rightarrow> (r, evs @ evs', f'')))"

text \<open>\<^verbatim>\<open>try: m finally: fin\<close>: \<^verbatim>\<open>fin\<close> runs on every exit of \<^verbatim>\<open>m\<close>; an exception of
  \<^verbatim>\<open>fin\<close> replaces the outcome of \<^verbatim>\<open>m\<close>.\<close>

definition io_finally :: "'a io \<Rightarrow> unit io \<Rightarrow> 'a io" where
  "io_finally m fin f =
     (case m f of (r, evs, f') \<Rightarrow>
        (case fin f' of
           (Inl e, evs', f'') \<Rightarrow> (Inl e, evs @ evs', f'')
         | (Inr u, evs', f'') \<Rightarrow> (r, evs @ evs', f'')))"

text \<open>
  The state a call of \<^verbatim>\<open>deploy_mvp\<close> runs in: the log list, the trace and the file
  system.
\<close>

record st =
  deployment_log :: "log_entry list"
  trace :: "event list"
  files :: fs

type_synonym 'a py = "st \<Rightarrow> (exn + 'a) \<times> st"

definition py_return :: "'a \<Rightarrow> 'a py" where
  "py_return x s = (Inr x, s)"

definition py_raise :: "exn \<Rightarrow> 'a py" where
  "py_raise e s = (Inl e, s)"

definition py_bind :: "'a py \<Rightarrow> ('a \<Rightarrow> 'b py) \<Rightarrow> 'b py" where
  "py_bind m f s = (case m s of (Inl e, s') \<Rightarrow> (Inl e, s') | (Inr x, s') \<Rightarrow> f x s')"

definition say :: "log_entry \<Rightarrow> unit py" where
  "say e s = (Inr (), s\<lparr>deployment_log := deployment_log s @ [e]\<rparr>)"

section \<open>Collaborators\<close>

text \<open>
  The credentials dictionary, as the list of its items in insertion order, with distinct
  keys; a value may be \<^verbatim>\<open>None\<close>, as the dictionary of \<^verbatim>\<open>CredentialManager\<close> has such
  values. \<^verbatim>\<open>get\<close> is \<^verbatim>\<open>credentials.get(key)\<close> and \<^verbatim>\<open>get_or\<close> is
  \<^verbatim>\<open>credentials.get(key, default)\<close>, which returns the default only when the key is
  missing.
\<close>

type_synonym credentials = "(string \<times> string option) list"

definition get :: "credentials \<Rightarrow> string \<Rightarrow> string option" where
  "get creds k = (case map_of creds k of None \<Rightarrow> None | Some v \<Rightarrow> v)"

definition get_or :: "credentials \<Rightarrow> string \<Rightarrow> string \<Rightarrow> string option" where
  "get_or creds k dflt = (case map_of creds k of None \<Rightarrow> Some dflt | Some v \<Rightarrow> v)"

text \<open>An optional string inside an f-string.\<close>

definition fstr :: "string option \<Rightarrow> string" where
  "fstr v = (case v of None \<Rightarrow> ''None'' | Some s \<Rightarrow> s)"

text \<open>
  The dictionary a configurator returns, as far as \<^verbatim>\<open>deploy_mvp\<close> reads it: the value
  of \<^verbatim>\<open>success\<close>, and the value of \<^verbatim>\<open>error\<close> when the dictionary has that key.
\<close>

datatype outcome = Outcome (succeeded: bool) (error_key: "string option")

text \<open>The message of the \<^verbatim>\<open>AttributeError\<close> raised when an object lacks an attribute
  that its constructor sets only when credentials are present.\<close>

definition no_attribute :: "string \<Rightarrow> string \<Rightarrow> string" where
  "no_attribute cls a = quote cls @ '' object has no attribute '' @ quote a"

subsection \<open>\<^verbatim>\<open>github_automation.py\<close>\<close>

definition github_api :: string where
  "github_api = ''https://api.github.com''"

datatype repo_result = Repository string string | RepositoryFailed string

text \<open>The five subscripts of lines 45 to 49, in order; the first missing key raises.\<close>

definition repo_fields :: "json_object \<Rightarrow> exn + (string \<times> string)" where
  "repo_fields repo =
     (case subscript repo ''html_url'' of Inl e \<Rightarrow> Inl e | Inr html_url \<Rightarrow>
     (case subscript repo ''clone_url'' of Inl e \<Rightarrow> Inl e | Inr clone_url \<Rightarrow>
     (case subscript repo ''ssh_url'' of Inl e \<Rightarrow> Inl e | Inr ssh_url \<Rightarrow>
     (case subscript repo ''id'' of Inl e \<Rightarrow> Inl e | Inr repo_id \<Rightarrow>
     (case subscript repo ''full_name'' of Inl e \<Rightarrow> Inl e | Inr full_name \<Rightarrow>
        Inr (json_str html_url, json_str clone_url))))))"

definition create_repository :: "world \<Rightarrow> string \<Rightarrow> repo_result \<times> event list" where
  "create_repository w name =
     ((case answer w GithubCreateRepo of
         Raised m \<Rightarrow> RepositoryFailed (''Repository creation failed: '' @ m)
       | Response code text body \<Rightarrow>
           if code = 201 then
             (case body of
                Inl m \<Rightarrow> RepositoryFailed (''Repository creation failed: '' @ m)
              | Inr repo \<Rightarrow>
                  (case repo_fields repo of
                     Inl e \<Rightarrow> RepositoryFailed (''Repository creation failed: '' @ str e)
                   | Inr (html_url, clone_url) \<Rightarrow> Repository html_url clone_url))
           else RepositoryFailed (''GitHub API error: '' @ str_nat code @ '' - '' @ text)),
      [HttpPost (github_api @ ''/user/repos'')])"

text \<open>
  \<^verbatim>\<open>setup_environment_variables\<close> (lines 60 to 100). The loop of lines 73 to 76 looks
  for the first listed repository whose \<^verbatim>\<open>name\<close> is \<^verbatim>\<open>repo_name\<close>; the loop of lines
  83 to 93 sends one \<^verbatim>\<open>PUT\<close> per variable and does not read the responses. An
  exception anywhere makes the method return \<^verbatim>\<open>False\<close>.
\<close>

fun find_repo :: "string \<Rightarrow> json_object list \<Rightarrow> exn + json_object option" where
  "find_repo repo_name [] = Inr None"
| "find_repo repo_name (repo # repos) =
     (case subscript repo ''name'' of
        Inl e \<Rightarrow> Inl e
      | Inr name \<Rightarrow> if name = JStr repo_name then Inr (Some repo)
                   else find_repo repo_name repos)"

fun put_secrets ::
  "world \<Rightarrow> string \<Rightarrow> (string \<times> string option) list \<Rightarrow> bool \<times> event list" where
  "put_secrets w secrets_url [] = (True, [])"
| "put_secrets w secrets_url ((key, v) # env_vars) =
     (case answer w (SecretPut key) of
        Raised m \<Rightarrow> (False, [HttpPut (secrets_url @ ''/'' @ key)])
      | Response code text body \<Rightarrow>
          (case put_secrets w secrets_url env_vars of
             (r, evs) \<Rightarrow> (r, HttpPut (secrets_url @ ''/'' @ key) # evs)))"

definition setup_environment_variables ::
  "world \<Rightarrow> string \<Rightarrow> (string \<times> string option) list \<Rightarrow> bool \<times> event list" where
  "setup_environment_variables w repo_name env_vars =
     (case answer w GithubListRepos of
        Raised m \<Rightarrow> (False, [HttpGet (github_api @ ''/user/repos'') None])
      | Response code text body \<Rightarrow>
          if code \<noteq> 200 then (False, [HttpGet (github_api @ ''/user/repos'') None])
          else
            (case repos_listed w of
               Inl m \<Rightarrow> (False, [HttpGet (github_api @ ''/user/repos'') None])
             | Inr repos \<Rightarrow>
                 (case find_repo repo_name repos of
                    Inl e \<Rightarrow> (False, [HttpGet (github_api @ ''/user/repos'') None])
                  | Inr None \<Rightarrow> (False, [HttpGet (github_api @ ''/user/repos'') None])
                  | Inr (Some target_repo) \<Rightarrow>
                      if target_repo = []
                      then (False, [HttpGet (github_api @ ''/user/repos'') None])
                      else
                        (case subscript target_repo ''full_name'' of
                           Inl e \<Rightarrow> (False, [HttpGet (github_api @ ''/user/repos'') None])
                         | Inr full_name \<Rightarrow>
                             (case put_secrets w
                                     (github_api @ ''/repos/'' @ json_str full_name @
                                      ''/actions/secrets'') env_vars of
                                (r, evs) \<Rightarrow>
                                  (r, HttpGet (github_api @ ''/user/repos'') None # evs))))))"

subsection \<open>\<^verbatim>\<open>domain_management.py\<close>\<close>

definition godaddy_base_url :: string where
  "godaddy_base_url = ''https://api.godaddy.com/v1''"

text \<open>\<^verbatim>\<open>godaddy_headers\<close> and \<^verbatim>\<open>godaddy_base_url\<close> exist only when both the key and the
  secret are set (lines 17 to 22); reading them otherwise raises inside the caller's
  \<^verbatim>\<open>try\<close>, before any request.\<close>

definition godaddy_ready :: "credentials \<Rightarrow> bool" where
  "godaddy_ready creds =
     (truthy (get creds ''GODADDY_API_KEY'') \<and> truthy (get creds ''GODADDY_SECRET''))"

datatype availability = Availability json | AvailabilityFailed string

definition check_domain_availability ::
  "world \<Rightarrow> credentials \<Rightarrow> string \<Rightarrow> availability \<times> event list" where
  "check_domain_availability w creds domain =
     (if \<not> godaddy_ready creds
      then (AvailabilityFailed (''Availability check failed: '' @
              no_attribute ''DomainManager'' ''godaddy_base_url''), [])
      else
        ((case answer w GodaddyAvailable of
            Raised m \<Rightarrow> AvailabilityFailed (''Availability check failed: '' @ m)
          | Response code text body \<Rightarrow>
              if code = 200 then
                (case body of
                   Inl m \<Rightarrow> AvailabilityFailed (''Availability check failed: '' @ m)
                 | Inr data \<Rightarrow> Availability (get_default data ''available'' (JBool False)))
              else AvailabilityFailed (''Domain availability check failed: '' @ str_nat code)),
         [HttpGet (godaddy_base_url @ ''/domains/available?domain='' @ domain) None]))"

definition register_domain :: "world \<Rightarrow> credentials \<Rightarrow> string \<Rightarrow> outcome \<times> event list" where
  "register_domain w creds domain =
     (if \<not> godaddy_ready creds
      then (Outcome False (Some (''Domain registration failed: '' @
              no_attribute ''DomainManager'' ''godaddy_base_url'')), [])
      else
        ((case answer w GodaddyPurchase of
            Raised m \<Rightarrow> Outcome False (Some (''Domain registration failed: '' @ m))
          | Response code text body \<Rightarrow>
              if code = 200 \<or> code = 201 then Outcome True None
              else Outcome False (Some (''Domain registration failed: '' @ str_nat code @
                     '' - '' @ text))),
         [HttpPost (godaddy_base_url @ ''/domains/purchase'')]))"

text \<open>The records sent carry the host of \<^verbatim>\<open>target_url\<close>; the payload is not modelled.\<close>

definition configure_dns ::
  "world \<Rightarrow> credentials \<Rightarrow> string \<Rightarrow> string \<Rightarrow> outcome \<times> event list" where
  "configure_dns w creds domain target_url =
     (if \<not> godaddy_ready creds
      then (Outcome False (Some (''DNS configuration failed: '' @
              no_attribute ''DomainManager'' ''godaddy_base_url'')), [])
      else
        ((case answer w GodaddyRecords of
            Raised m \<Rightarrow> Outcome False (Some (''DNS configuration failed: '' @ m))
          | Response code text body \<Rightarrow>
              if code = 200 then Outcome True None
              else Outcome False (Some (''DNS configuration failed: '' @ str_nat code @
                     '' - '' @ text))),
         [HttpPut (godaddy_base_url @ ''/domains/'' @ domain @ ''/records'')]))"

definition setup_domain ::
  "world \<Rightarrow> credentials \<Rightarrow> string \<Rightarrow> string \<Rightarrow> outcome \<times> event list" where
  "setup_domain w creds domain target_url =
     (if \<not> truthy (get creds ''GODADDY_API_KEY'')
      then (Outcome False (Some ''GoDaddy credentials not available''), [])
      else
        (case check_domain_availability w creds domain of
           (AvailabilityFailed m, evs) \<Rightarrow> (Outcome False (Some m), evs)
         | (Availability available, evs) \<Rightarrow>
             if json_truthy available then
               (case register_domain w creds domain of
                  (registration, evs') \<Rightarrow>
                    if \<not> succeeded registration then (registration, evs @ evs')
                    else
                      (case configure_dns w creds domain target_url of
                         (dns_result, evs'') \<Rightarrow> (dns_result, evs @ evs' @ evs'')))
             else
               (case configure_dns w creds domain target_url of
                  (dns_result, evs'') \<Rightarrow> (dns_result, evs @ evs''))))"

subsection \<open>\<^verbatim>\<open>email_integration.py\<close>\<close>

definition mailchimp_base_url :: "credentials \<Rightarrow> string" where
  "mailchimp_base_url creds =
     ''https://'' @ fstr (get_or creds ''MAILCHIMP_SERVER'' ''us19'') @ ''.api.mailchimp.com/3.0''"

definition mailgun_base_url :: "credentials \<Rightarrow> string" where
  "mailgun_base_url creds =
     ''https://api.mailgun.net/v3/'' @
     fstr (get_or creds ''MAILGUN_DOMAIN'' ''sandbox.mailgun.org'')"

definition setup_mailchimp_notifications ::
  "world \<Rightarrow> credentials \<Rightarrow> string \<Rightarrow> string \<Rightarrow> outcome \<times> event list" where
  "setup_mailchimp_notifications w creds app_url repo_name =
     ((case answer w MailchimpCampaigns of
         Raised m \<Rightarrow> Outcome False (Some (''Mailchimp setup failed: '' @ m))
       | Response code text body \<Rightarrow>
           if code = 200 \<or> code = 201 then Outcome True None
           else Outcome False (Some (''Mailchimp setup failed: '' @ str_nat code @
                  '' - '' @ text))),
      [HttpPost (mailchimp_base_url creds @ ''/campaigns'')])"

definition setup_sendgrid_notifications ::
  "world \<Rightarrow> credentials \<Rightarrow> string \<Rightarrow> string \<Rightarrow> outcome \<times> event list" where
  "setup_sendgrid_notifications w creds app_url repo_name =
     ((case answer w SendgridTemplates of
         Raised m \<Rightarrow> Outcome False (Some (''SendGrid setup failed: '' @ m))
       | Response code text body \<Rightarrow>
           if code = 201 then
             (case body of
                Inl m \<Rightarrow> Outcome False (Some (''SendGrid setup failed: '' @ m))
              | Inr template \<Rightarrow>
                  (case subscript template ''id'' of
                     Inl e \<Rightarrow> Outcome False (Some (''SendGrid setup failed: '' @ str e))
                   | Inr template_id \<Rightarrow> Outcome True None))
           else Outcome False (Some (''SendGrid template creation failed: '' @ str_nat code @
                  '' - '' @ text))),
      [HttpPost (''https://api.sendgrid.com/v3'' @ ''/templates'')])"

definition setup_mailgun_notifications ::
  "world \<Rightarrow> credentials \<Rightarrow> string \<Rightarrow> string \<Rightarrow> outcome \<times> event list" where
  "setup_mailgun_notifications w creds app_url repo_name =
     ((case answer w MailgunStats of
         Raised m \<Rightarrow> Outcome False (Some (''Mailgun setup failed: '' @ m))
       | Response code text body \<Rightarrow>
           if code = 200 then Outcome True None
           else Outcome False (Some (''Mailgun connection failed: '' @ str_nat code))),
      [HttpGet (mailgun_base_url creds @ ''/stats/total'') None])"

definition setup_notifications ::
  "world \<Rightarrow> credentials \<Rightarrow> string \<Rightarrow> string \<Rightarrow> outcome \<times> event list" where
  "setup_notifications w creds app_url repo_name =
     (if truthy (get creds ''MAILCHIMP_API_KEY'')
        then setup_mailchimp_notifications w creds app_url repo_name
      else if truthy (get creds ''SENDGRID_API_KEY'')
        then setup_sendgrid_notifications w creds app_url repo_name
      else if truthy (get creds ''MAILGUN_API_KEY'')
        then setup_mailgun_notifications w creds app_url repo_name
      else (Outcome False (Some ''No email service credentials available''), []))"

subsection \<open>\<^verbatim>\<open>monitoring_integration.py\<close>\<close>

text \<open>Each helper returns the \<^verbatim>\<open>success\<close> flag of its dictionary and its requests.\<close>

definition setup_datadog_monitoring :: "world \<Rightarrow> bool \<times> event list" where
  "setup_datadog_monitoring w =
     ((case answer w DatadogDashboard of
         Raised m \<Rightarrow> False
       | Response code text body \<Rightarrow>
           if code = 200 \<or> code = 201 then (case body of Inl m \<Rightarrow> False | Inr dashboard \<Rightarrow> True)
           else False),
      [HttpPost (''https://api.datadoghq.com/api/v1'' @ ''/dashboard'')])"

definition setup_health_check_monitoring :: "world \<Rightarrow> string \<Rightarrow> bool \<times> event list" where
  "setup_health_check_monitoring w app_url =
     ((case answer w MonitorHealth of
         Raised m \<Rightarrow> False
       | Response code text body \<Rightarrow> code = 200),
      [HttpGet (app_url @ ''/api/health'') (Some 30)])"

definition setup_uptime_monitoring :: "world \<Rightarrow> string \<Rightarrow> bool \<times> event list" where
  "setup_uptime_monitoring w app_url =
     ((case answer w MonitorUptime of
         Raised m \<Rightarrow> False
       | Response code text body \<Rightarrow> code = 200),
      [HttpGet app_url (Some 30)])"

text \<open>
  \<^verbatim>\<open>setup_monitoring\<close> (lines 26 to 55) collects the helpers' results and returns a
  dictionary with the keys \<^verbatim>\<open>success\<close>, \<^verbatim>\<open>monitoring_services\<close>, \<^verbatim>\<open>total_services\<close>
  and \<^verbatim>\<open>message\<close>: it has no \<^verbatim>\<open>error\<close> key, whatever \<^verbatim>\<open>success\<close> is. The handler at
  line 54 is not reached, as every helper catches its own exceptions.
\<close>

definition setup_monitoring ::
  "world \<Rightarrow> credentials \<Rightarrow> string \<Rightarrow> string \<Rightarrow> outcome \<times> event list" where
  "setup_monitoring w creds app_url repo_name =
     (let sentry = (if truthy (get creds ''SENTRY_DSN'') then [(True, [])] else []);
          datadog = (if truthy (get creds ''DATADOG_API_KEY'') then [setup_datadog_monitoring w] else []);
          monitoring_results =
            sentry @ datadog @
            [setup_health_check_monitoring w app_url, setup_uptime_monitoring w app_url];
          successful_setups = filter fst monitoring_results
      in (Outcome (length successful_setups > 0) None, concat (map snd monitoring_results)))"

subsection \<open>\<^verbatim>\<open>cicd_automation.py\<close>\<close>

definition create_github_actions_workflow ::
  "world \<Rightarrow> string \<Rightarrow> string \<Rightarrow> outcome \<times> event list" where
  "create_github_actions_workflow w repo_name platform =
     ((case answer w WorkflowPut of
         Raised m \<Rightarrow> Outcome False (Some (''Workflow creation failed: '' @ m))
       | Response code text body \<Rightarrow>
           if code = 200 \<or> code = 201 then Outcome True None
           else Outcome False (Some (''Workflow creation failed: '' @ str_nat code @
                  '' - '' @ text))),
      [HttpPut (github_api @ ''/repos/'' @ repo_name @ ''/.github/workflows/deploy.yml'')])"

definition setup_branch_protection :: "world \<Rightarrow> string \<Rightarrow> event list" where
  "setup_branch_protection w repo_name =
     [HttpPut (github_api @ ''/repos/'' @ repo_name @ ''/branches/main/protection'')]"

text \<open>The loop over \<^verbatim>\<open>['staging', 'production']\<close>: a request that raises ends it.\<close>

fun create_deployment_environments :: "world \<Rightarrow> string \<Rightarrow> string list \<Rightarrow> event list" where
  "create_deployment_environments w repo_name [] = []"
| "create_deployment_environments w repo_name (env # envs) =
     HttpPut (github_api @ ''/repos/'' @ repo_name @ ''/environments/'' @ env) #
     (case answer w (EnvironmentPut env) of
        Raised m \<Rightarrow> []
      | Response code text body \<Rightarrow> create_deployment_environments w repo_name envs)"

text \<open>The results of branch protection and of the environments only fill fields of the
  returned dictionary that \<^verbatim>\<open>deploy_mvp\<close> does not read.\<close>

definition setup_pipeline ::
  "world \<Rightarrow> credentials \<Rightarrow> string \<Rightarrow> string \<Rightarrow> outcome \<times> event list" where
  "setup_pipeline w creds repo_name platform =
     (if \<not> truthy (get creds ''GITHUB_TOKEN'')
      then (Outcome False (Some ''GitHub token not available''), [])
      else
        (case create_github_actions_workflow w repo_name platform of
           (workflow_result, evs) \<Rightarrow>
             if succeeded workflow_result
             then (Outcome True None,
                   evs @ setup_branch_protection w repo_name @
                   create_deployment_environments w repo_name [''staging'', ''production''])
             else (workflow_result, evs)))"

subsection \<open>\<^verbatim>\<open>business_operations.py\<close>\<close>

text \<open>
  Legal compliance, customer support, analytics and marketing only build dictionaries
  from their string arguments and return \<^verbatim>\<open>success: True\<close>; billing needs the Stripe
  key. No helper sends a request. Like \<^verbatim>\<open>setup_monitoring\<close>, \<^verbatim>\<open>setup_operations\<close>
  returns a dictionary without an \<^verbatim>\<open>error\<close> key.
\<close>

definition setup_operations ::
  "world \<Rightarrow> credentials \<Rightarrow> string \<Rightarrow> string \<Rightarrow> outcome \<times> event list" where
  "setup_operations w creds app_url repo_name =
     (let operations_results = [True, True, True, truthy (get creds ''STRIPE_SECRET_KEY''), True];
          successful_setups = filter (\<lambda>r. r) operations_results
      in (Outcome (length successful_setups > 0) None, []))"

section \<open>\<^verbatim>\<open>autonomous_deployer.py\<close>\<close>

subsection \<open>The constructor\<close>

text \<open>
  \<^verbatim>\<open>self.platforms\<close> maps an identifier to an adapter object; the model keeps its keys in
  insertion order. The key decides the adapter's class, so the method each branch of
  lines 108 to 110 calls exists on the object it is called on.
\<close>

record deployer =
  credentials :: credentials
  platforms :: "string list"

text \<open>The dictionary \<^verbatim>\<open>CredentialManager().get_all_credentials()\<close> returns
  (\<^verbatim>\<open>credential_manager.py\<close>, lines 20 to 45).\<close>

definition CredentialManager :: "world \<Rightarrow> credentials" where
  "CredentialManager w =
     [(''RAILWAY_TOKEN'', Some ''2e8e81e5-cb08-4ae9-8fe8-4fa94e942a62''),
      (''VERCEL_TOKEN'', Some ''ZEo01Ou1koSSDWyFw0w9LGjX''),
      (''RENDER_API_KEY'', Some ''rnd_gBzxTKBbvKl6VxHFnexzTS0i9jHZ''),
      (''GITHUB_TOKEN'', getenv w ''GITHUB_TOKEN''),
      (''GITHUB_APP_ID'', Some ''1693043''),
      (''GITHUB_PRIVATE_KEY'', Some ''SHA256:zUg3vVtYlXT6ENnhhVKvBu84WSYKWXgcvFWc9JE86uI=''),
      (''GODADDY_API_KEY'', Some ''h2K7cZMm5MPB_6Daj9vMhKLqpx3c7ijGDgM''),
      (''GODADDY_SECRET'', Some ''HqmPSzSHSgbboFYuWJK3NU''),
      (''SENDGRID_API_KEY'', None),
      (''MAILGUN_API_KEY'', None),
      (''MAILCHIMP_API_KEY'', Some ''4f89ab137b38a9d6272e4512daeb1b60-us19''),
      (''MAILCHIMP_SERVER'', Some ''us19''),
      (''SENTRY_DSN'', None),
      (''DATADOG_API_KEY'', None),
      (''OPENAI_API_KEY'', getenv w ''OPENAI_API_KEY''),
      (''STRIPE_SECRET_KEY'', getenv w ''STRIPE_SECRET_KEY''),
      (''TELEGRAM_BOT_TOKEN'', getenv w ''TELEGRAM_BOT_TOKEN''),
      (''TELEGRAM_USER_ID'', getenv w ''TELEGRAM_USER_ID''),
      (''PRICE_ID'', (case getenv w ''PRICE_ID'' of
                       None \<Rightarrow> Some ''price_1RcdcyEfbTvI2h4o4PVLTykg''
                     | Some v \<Rightarrow> Some v))]"

text \<open>
  \<^verbatim>\<open>__init__\<close> (lines 28 to 49). The argument \<^verbatim>\<open>None\<close> takes the same branch of line
  30 as the empty dictionary and is the empty list here.
\<close>

definition AutonomousDeployer :: "world \<Rightarrow> credentials \<Rightarrow> deployer" where
  "AutonomousDeployer w given =
     (let creds = (if given \<noteq> [] then given else CredentialManager w) in
      \<lparr>credentials = creds,
       platforms =
         (if truthy (get creds ''RENDER_API_KEY'') then [''render''] else []) @
         (if truthy (get creds ''RAILWAY_TOKEN'') then [''railway''] else []) @
         (if truthy (get creds ''VERCEL_TOKEN'') then [''vercel''] else [])\<rparr>)"

definition prepare_environment_variables :: "deployer \<Rightarrow> (string \<times> string option) list" where
  "prepare_environment_variables self =
     [(''OPENAI_API_KEY'', get_or (credentials self) ''OPENAI_API_KEY'' []),
      (''STRIPE_SECRET_KEY'', get_or (credentials self) ''STRIPE_SECRET_KEY'' []),
      (''SECRET_KEY'', Some ''ai-content-optimizer-secret-key-2025''),
      (''FLASK_ENV'', Some ''production''),
      (''PRICE_ID'', get_or (credentials self) ''PRICE_ID'' ''price_1RcdcyEfbTvI2h4o4PVLTykg''),
      (''TELEGRAM_BOT_TOKEN'', get_or (credentials self) ''TELEGRAM_BOT_TOKEN'' []),
      (''TELEGRAM_USER_ID'', get_or (credentials self) ''TELEGRAM_USER_ID'' [])]"

subsection \<open>\<^verbatim>\<open>_push_mvp_files\<close>\<close>

definition temp_dir_at :: "nat \<Rightarrow> string" where
  "temp_dir_at t = ''/tmp/deploy_'' @ str_nat t"

text \<open>\<^verbatim>\<open>os.makedirs(d, exist_ok=True)\<close>.\<close>

definition makedirs :: "world \<Rightarrow> string \<Rightarrow> unit io" where
  "makedirs w d f =
     (case makedirs_error w of
        Some m \<Rightarrow> (Inl (OtherError m), [], f)
      | None \<Rightarrow> (Inr (), [], f\<lparr>dirs := insert d (dirs f)\<rparr>))"

text \<open>\<^verbatim>\<open>os.getcwd()\<close> raises when the working directory no longer exists.\<close>

definition getcwd :: "string io" where
  "getcwd f =
     (if cwd f \<in> dirs f then (Inr (cwd f), [], f)
      else (Inl (OtherError ''[Errno 2] No such file or directory''), [], f))"

text \<open>\<^verbatim>\<open>os.chdir(d)\<close> raises when \<^verbatim>\<open>d\<close> is not an existing directory.\<close>

definition chdir :: "string \<Rightarrow> unit io" where
  "chdir d f =
     (if d \<in> dirs f then (Inr (), [], f\<lparr>cwd := d\<rparr>)
      else (Inl (OtherError (''[Errno 2] No such file or directory: '' @ quote d)), [], f))"

text \<open>\<^verbatim>\<open>subprocess.run(argv, check=True)\<close>.\<close>

definition run :: "world \<Rightarrow> git \<Rightarrow> string list \<Rightarrow> unit io" where
  "run w g argv f =
     (case subprocess w g of
        Some e \<Rightarrow> (Inl e, [Run argv], f)
      | None \<Rightarrow> (Inr (), [Run argv], f))"

text \<open>The loop of lines 206 to 213 over the entries of the source directory.\<close>

fun copy_items :: "world \<Rightarrow> string \<Rightarrow> (string \<times> bool) list \<Rightarrow> unit io" where
  "copy_items w temp_dir [] = io_return ()"
| "copy_items w temp_dir ((item_name, is_dir) # items) =
     (let dest_path = temp_dir @ ''/'' @ item_name in
      case copy_error w item_name of
        Some m \<Rightarrow> io_raise (OtherError m)
      | None \<Rightarrow>
          if is_dir
          then io_bind (\<lambda>f. (Inr (), [CopyTree item_name dest_path],
                              f\<lparr>dirs := insert dest_path (dirs f)\<rparr>))
                 (\<lambda>u. copy_items w temp_dir items)
          else io_bind (\<lambda>f. (Inr (), [CopyFile item_name dest_path], f))
                 (\<lambda>u. copy_items w temp_dir items))"

text \<open>The body of the outer \<^verbatim>\<open>try\<close> (lines 196 to 225).\<close>

definition push_try :: "world \<Rightarrow> string \<Rightarrow> string \<Rightarrow> unit io" where
  "push_try w mvp_path clone_url =
     (let temp_dir = temp_dir_at (clock_push w) in
      io_bind (makedirs w temp_dir) (\<lambda>u.
      io_bind (run w Clone [''git'', ''clone'', clone_url, temp_dir]) (\<lambda>u.
      io_bind (copy_items w temp_dir (listing w mvp_path)) (\<lambda>u.
      io_bind getcwd (\<lambda>original_cwd.
      io_bind (chdir temp_dir) (\<lambda>u.
      io_finally
        (io_bind (run w Add [''git'', ''add'', ''.'']) (\<lambda>u.
         io_bind (run w Commit [''git'', ''commit'', ''-m'', ''Initial MVP deployment'']) (\<lambda>u.
         run w Push [''git'', ''push'', ''origin'', ''main''])))
        (chdir original_cwd)))))))"

datatype push_result = Pushed | PushFailed string

text \<open>The handlers of lines 227 to 230: \<^verbatim>\<open>_push_mvp_files\<close> returns in every case.\<close>

definition push_mvp_files ::
  "world \<Rightarrow> string \<Rightarrow> string \<Rightarrow> fs \<Rightarrow> push_result \<times> event list \<times> fs" where
  "push_mvp_files w mvp_path clone_url f =
     (case push_try w mvp_path clone_url f of
        (Inr u, evs, f') \<Rightarrow> (Pushed, evs, f')
      | (Inl (CalledProcessError m), evs, f') \<Rightarrow>
          (PushFailed (''Git operation failed: '' @ m), evs, f')
      | (Inl e, evs, f') \<Rightarrow> (PushFailed (str e), evs, f'))"

subsection \<open>\<^verbatim>\<open>_verify_deployment\<close>\<close>

record verification =
  health_check :: bool
  main_page :: bool
  overall_status :: bool
  verification_error :: "string option"

definition verify_deployment :: "world \<Rightarrow> string \<Rightarrow> verification \<times> event list" where
  "verify_deployment w app_url =
     (case answer w VerifyHealth of
        Raised m \<Rightarrow>
          (\<lparr>health_check = False, main_page = False, overall_status = False,
            verification_error = Some m\<rparr>,
           [HttpGet (app_url @ ''/api/health'') (Some 30)])
      | Response health_code health_text health_body \<Rightarrow>
          (let health_ok = (health_code = 200) in
           case answer w VerifyMain of
             Raised m \<Rightarrow>
               (\<lparr>health_check = False, main_page = False, overall_status = False,
                 verification_error = Some m\<rparr>,
                [HttpGet (app_url @ ''/api/health'') (Some 30), HttpGet app_url (Some 30)])
           | Response main_code main_text main_body \<Rightarrow>
               (let main_ok = (main_code = 200) in
                (\<lparr>health_check = health_ok, main_page = main_ok,
                  overall_status = (health_ok \<and> main_ok), verification_error = None\<rparr>,
                 [HttpGet (app_url @ ''/api/health'') (Some 30), HttpGet app_url (Some 30)]))))"

subsection \<open>\<^verbatim>\<open>deploy_mvp\<close>\<close>

text \<open>A call of \<^verbatim>\<open>deploy_mvp\<close> on a collaborator: the call is recorded, then the
  collaborator's own events.\<close>

definition call :: "string \<Rightarrow> string list \<Rightarrow> 'a \<times> event list \<Rightarrow> 'a py" where
  "call name args r s = (Inr (fst r), s\<lparr>trace := trace s @ Call name args # snd r\<rparr>)"

text \<open>The call of \<^verbatim>\<open>_push_mvp_files\<close>, which works on the file system.\<close>

definition call_push ::
  "string list \<Rightarrow> (fs \<Rightarrow> 'a \<times> event list \<times> fs) \<Rightarrow> 'a py" where
  "call_push args m s =
     (case m (files s) of
        (x, evs, f') \<Rightarrow>
          (Inr x, s\<lparr>trace := trace s @ Call ''_push_mvp_files'' args # evs, files := f'\<rparr>))"

text \<open>\<^verbatim>\<open>result['error']\<close>.\<close>

definition error_of :: "outcome \<Rightarrow> string py" where
  "error_of r = (case error_key r of None \<Rightarrow> py_raise (KeyError ''error'') | Some m \<Rightarrow> py_return m)"

text \<open>Lines 108 to 110: the method is chosen by the identifier.\<close>

definition adapter_result :: "world \<Rightarrow> string \<Rightarrow> string \<times> provision" where
  "adapter_result w platform =
     (if platform = ''render'' then (''create_service'', create_service w)
      else if platform = ''railway'' then (''deploy_project'', deploy_project w)
      else (''create_deployment'', create_deployment w))"

definition adapter_requests :: "world \<Rightarrow> string \<Rightarrow> event list" where
  "adapter_requests w platform =
     (if platform = ''render'' then create_service_requests w
      else if platform = ''railway'' then deploy_project_requests w
      else create_deployment_requests w)"

definition provision_on :: "world \<Rightarrow> string \<Rightarrow> string \<Rightarrow> provision py" where
  "provision_on w platform repo_url =
     call (fst (adapter_result w platform)) [repo_url]
       (snd (adapter_result w platform), adapter_requests w platform)"

text \<open>Lines 122 to 129; the value is \<^verbatim>\<open>app_url\<close> after the block.\<close>

definition domain_step :: "world \<Rightarrow> deployer \<Rightarrow> string option \<Rightarrow> string \<Rightarrow> string py" where
  "domain_step w self custom_domain app_url =
     (case custom_domain of
        None \<Rightarrow> py_return app_url
      | Some domain \<Rightarrow>
          if domain = [] then py_return app_url
          else
            py_bind (say (SettingUpDomain domain)) (\<lambda>u.
            py_bind (call ''setup_domain'' [domain, app_url]
                       (setup_domain w (credentials self) domain app_url)) (\<lambda>domain_result.
            if succeeded domain_result
            then py_bind (say (DomainConfigured (''https://'' @ domain)))
                   (\<lambda>u. py_return (''https://'' @ domain))
            else py_bind (error_of domain_result) (\<lambda>m.
                 py_bind (say (DomainFailed m)) (\<lambda>u. py_return app_url)))))"

text \<open>Lines 131 to 136.\<close>

definition monitoring_step :: "world \<Rightarrow> deployer \<Rightarrow> string \<Rightarrow> string \<Rightarrow> unit py" where
  "monitoring_step w self app_url repo_name =
     py_bind (say SettingUpMonitoring) (\<lambda>u.
     py_bind (call ''setup_monitoring'' [app_url, repo_name]
                (setup_monitoring w (credentials self) app_url repo_name)) (\<lambda>monitoring_result.
     if succeeded monitoring_result then say MonitoringConfigured
     else py_bind (error_of monitoring_result) (\<lambda>m. say (MonitoringFailed m))))"

text \<open>Lines 138 to 143.\<close>

definition cicd_step :: "world \<Rightarrow> deployer \<Rightarrow> string \<Rightarrow> string \<Rightarrow> unit py" where
  "cicd_step w self repo_name platform =
     py_bind (say SettingUpCICD) (\<lambda>u.
     py_bind (call ''setup_pipeline'' [repo_name, platform]
                (setup_pipeline w (credentials self) repo_name platform)) (\<lambda>cicd_result.
     if succeeded cicd_result then say CICDConfigured
     else py_bind (error_of cicd_result) (\<lambda>m. say (CICDFailed m))))"

text \<open>Lines 145 to 150.\<close>

definition email_step :: "world \<Rightarrow> deployer \<Rightarrow> string \<Rightarrow> string \<Rightarrow> unit py" where
  "email_step w self app_url repo_name =
     py_bind (say SettingUpEmail) (\<lambda>u.
     py_bind (call ''setup_notifications'' [app_url, repo_name]
                (setup_notifications w (credentials self) app_url repo_name)) (\<lambda>email_result.
     if succeeded email_result then say EmailConfigured
     else py_bind (error_of email_result) (\<lambda>m. say (EmailFailed m))))"

text \<open>Lines 152 to 157.\<close>

definition business_step :: "world \<Rightarrow> deployer \<Rightarrow> string \<Rightarrow> string \<Rightarrow> unit py" where
  "business_step w self app_url repo_name =
     py_bind (say SettingUpBusiness) (\<lambda>u.
     py_bind (call ''setup_operations'' [app_url, repo_name]
                (setup_operations w (credentials self) app_url repo_name)) (\<lambda>business_result.
     if succeeded business_result then say BusinessConfigured
     else py_bind (error_of business_result) (\<lambda>m. say (BusinessFailed m))))"

text \<open>
  The dictionary \<^verbatim>\<open>deploy_mvp\<close> returns; a key that a return statement does not set is
  \<^verbatim>\<open>None\<close>. The \<^verbatim>\<open>timestamp\<close> of the last return statement, a reading of the float
  clock, is left out.
\<close>

record deploy_result =
  success :: bool
  error :: "string option"
  app_url :: "string option"
  repo_url :: "string option"
  platform :: "string option"
  deployment_id :: "string option"
  verification :: "verification option"
  log :: "log_entry list"

text \<open>\<^verbatim>\<open>{'success': False, 'error': msg, 'log': deployment_log}\<close>.\<close>

definition failure :: "string \<Rightarrow> log_entry list \<Rightarrow> deploy_result" where
  "failure msg l =
     \<lparr>success = False, error = Some msg, app_url = None, repo_url = None, platform = None,
      deployment_id = None, verification = None, log = l\<rparr>"

definition return_failure :: "string \<Rightarrow> deploy_result py" where
  "return_failure msg s = (Inr (failure msg (deployment_log s)), s)"

text \<open>Lines 159 to 171.\<close>

definition verify_and_return ::
  "world \<Rightarrow> string \<Rightarrow> string \<Rightarrow> string \<Rightarrow> string option \<Rightarrow> string option \<Rightarrow> deploy_result py" where
  "verify_and_return w app_url' repo_url' platform' service_id deployment_id' =
     py_bind (say RunningVerification) (\<lambda>u.
     py_bind (call ''_verify_deployment'' [app_url'] (verify_deployment w app_url'))
       (\<lambda>verification_result s.
          (Inr \<lparr>success = True, error = None, app_url = Some app_url',
                repo_url = Some repo_url', platform = Some platform',
                deployment_id = (if truthy service_id then service_id else deployment_id'),
                verification = Some verification_result, log = deployment_log s\<rparr>, s)))"

text \<open>Lines 119 to 171: everything after the adapter has reported success.\<close>

definition after_provision ::
  "world \<Rightarrow> deployer \<Rightarrow> string \<Rightarrow> string \<Rightarrow> string \<Rightarrow> string option \<Rightarrow>
   string \<Rightarrow> string option \<Rightarrow> string option \<Rightarrow> deploy_result py" where
  "after_provision w self repo_name repo_url' platform' custom_domain url service_id deployment_id' =
     py_bind (say (DeployedTo url)) (\<lambda>u.
     py_bind (domain_step w self custom_domain url) (\<lambda>app_url'.
     py_bind (monitoring_step w self app_url' repo_name) (\<lambda>u.
     py_bind (cicd_step w self repo_name platform') (\<lambda>u.
     py_bind (email_step w self app_url' repo_name) (\<lambda>u.
     py_bind (business_step w self app_url' repo_name) (\<lambda>u.
     verify_and_return w app_url' repo_url' platform' service_id deployment_id'))))))"

text \<open>Lines 99 to 117, then the rest.\<close>

definition select_and_provision ::
  "world \<Rightarrow> deployer \<Rightarrow> string \<Rightarrow> string \<Rightarrow> string \<Rightarrow> string option \<Rightarrow> deploy_result py" where
  "select_and_provision w self repo_name repo_url' platform' custom_domain =
     py_bind (say (DeployingTo platform')) (\<lambda>u.
     if platform' \<notin> set (platforms self)
     then return_failure (''Platform '' @ platform' @ '' not available. Available: '' @
            str_list (platforms self))
     else
       py_bind (provision_on w platform' repo_url') (\<lambda>deploy_result.
       (case deploy_result of
          ProvisionFailed m \<Rightarrow>
            return_failure (title platform' @ '' deployment failed: '' @ m)
        | Provisioned url service_id deployment_id' \<Rightarrow>
            after_provision w self repo_name repo_url' platform' custom_domain
              url service_id deployment_id')))"

text \<open>The body of the \<^verbatim>\<open>try\<close> statement, lines 58 to 171.\<close>

definition deploy_try ::
  "world \<Rightarrow> deployer \<Rightarrow> string \<Rightarrow> string \<Rightarrow> string option \<Rightarrow> deploy_result py" where
  "deploy_try w self mvp_path platform' custom_domain =
     py_bind (say CreatingRepository) (\<lambda>u.
     (let repo_name = ''ai-content-optimizer-'' @ str_nat (clock_repo w) in
      py_bind (call ''create_repository'' [repo_name] (create_repository w repo_name))
        (\<lambda>repo_result.
      (case repo_result of
         RepositoryFailed m \<Rightarrow>
           return_failure (''GitHub repository creation failed: '' @ m)
       | Repository repo_url' clone_url \<Rightarrow>
           py_bind (say (RepositoryCreated repo_url')) (\<lambda>u.
           py_bind (say PushingFiles) (\<lambda>u.
           py_bind (call_push [mvp_path, clone_url]
                      (push_mvp_files w mvp_path clone_url)) (\<lambda>push_result.
           (case push_result of
              PushFailed m \<Rightarrow> return_failure (''File push failed: '' @ m)
            | Pushed \<Rightarrow>
                py_bind (say FilesPushed) (\<lambda>u.
                py_bind (say SettingUpEnvironment) (\<lambda>u.
                py_bind (call ''setup_environment_variables'' [repo_name]
                           (setup_environment_variables w repo_name
                              (prepare_environment_variables self))) (\<lambda>env_result.
                py_bind (say (if env_result then EnvironmentConfigured
                              else EnvironmentIssues)) (\<lambda>u.
                select_and_provision w self repo_name repo_url' platform'
                  custom_domain))))))))))))"

text \<open>
  \<^verbatim>\<open>deploy_mvp\<close>: the log starts empty, the body runs, and the handler of lines 173 to
  179 turns an exception of the body into a result.
\<close>

definition deploy_mvp ::
  "world \<Rightarrow> deployer \<Rightarrow> string \<Rightarrow> string \<Rightarrow> string option \<Rightarrow> st \<Rightarrow> deploy_result \<times> st" where
  "deploy_mvp w self mvp_path platform' custom_domain s0 =
     (case deploy_try w self mvp_path platform' custom_domain (s0\<lparr>deployment_log := []\<rparr>) of
        (Inr result, s) \<Rightarrow> (result, s)
      | (Inl e, s) \<Rightarrow>
          (let s' = s\<lparr>deployment_log := deployment_log s @ [DeploymentFailed (str e)]\<rparr>
           in (failure (str e) (deployment_log s'), s')))"

section \<open>Example runs\<close>

text \<open>
  Concrete worlds for evaluating the model. In \<^verbatim>\<open>calm_world\<close> every external party
  answers favourably: GitHub creates the repository, git and the copies succeed, each
  adapter provisions a service, and every other request returns status 200.
\<close>

definition repo_json :: json_object where
  "repo_json =
     [(''html_url'', JStr ''https://github.com/acme/ai-content-optimizer-1753843786''),
      (''clone_url'', JStr ''https://github.com/acme/ai-content-optimizer-1753843786.git''),
      (''ssh_url'', JStr ''git@github.com:acme/ai-content-optimizer-1753843786.git''),
      (''id'', JNum 42),
      (''name'', JStr ''ai-content-optimizer-1753843786''),
      (''full_name'', JStr ''acme/ai-content-optimizer-1753843786'')]"

definition calm_world :: world where
  "calm_world =
     \<lparr>clock_repo = 1753843786,
      clock_push = 1753843787,
      answer = (\<lambda>site. Response 200 ''OK'' (Inr []))
                 (GithubCreateRepo := Response 201 ''Created'' (Inr repo_json),
                  SendgridTemplates := Response 201 ''Created'' (Inr [(''id'', JStr ''d-1'')])),
      makedirs_error = None,
      subprocess = (\<lambda>g. None),
      listing = (\<lambda>path. [(''main.py'', False), (''templates'', True)]),
      copy_error = (\<lambda>item. None),
      repos_listed = Inr [repo_json],
      getenv = (\<lambda>name. None),
      create_service = Provisioned ''https://ai-content-optimizer.onrender.com'' (Some ''srv-1'') None,
      create_service_requests =
        [HttpGet ''https://api.render.com/v1/users/me'' None,
         HttpPost ''https://api.render.com/v1/services''],
      deploy_project =
        Provisioned ''https://ai-content-optimizer-1753843788.up.railway.app'' (Some ''svc-1'') None,
      deploy_project_requests = replicate 9 (HttpPost ''https://backboard.railway.app/graphql''),
      create_deployment = Provisioned ''https://ai-content-optimizer.vercel.app'' None (Some ''dpl-1''),
      create_deployment_requests = [HttpPost ''https://api.vercel.com/v2/deployments'']\<rparr>"

definition start :: st where
  "start = \<lparr>deployment_log = [], trace = [],
            files = \<lparr>cwd = ''/home/ubuntu'', dirs = {''/home/ubuntu'', ''/tmp''}\<rparr>\<rparr>"

text \<open>Credentials for GitHub and Render only, and a fuller set without any monitoring
  service.\<close>

definition render_only :: credentials where
  "render_only = [(''GITHUB_TOKEN'', Some ''ghp-1''), (''RENDER_API_KEY'', Some ''rnd-1'')]"

definition usual_credentials :: credentials where
  "usual_credentials =
     [(''GITHUB_TOKEN'', Some ''ghp-1''), (''RAILWAY_TOKEN'', Some ''rw-1''),
      (''RENDER_API_KEY'', Some ''rnd-1''), (''VERCEL_TOKEN'', Some ''vc-1''),
      (''GODADDY_API_KEY'', Some ''gd-1''), (''GODADDY_SECRET'', Some ''gd-2''),
      (''MAILCHIMP_API_KEY'', Some ''mc-1''), (''MAILCHIMP_SERVER'', Some ''us19'')]"

definition rejecting_github :: world where
  "rejecting_github =
     calm_world\<lparr>answer := (answer calm_world)
       (GithubCreateRepo := Response 422 ''name already exists on this account'' (Inr []))\<rparr>"

text \<open>
  Worlds in which something goes wrong. In \<^verbatim>\<open>services_down\<close> GitHub creates the
  repository and the adapter provisions the service, and every other request is answered
  with status 503, the listing of the repositories among them.
\<close>

definition services_down :: world where
  "services_down =
     calm_world\<lparr>answer := (\<lambda>site. Response 503 ''Service Unavailable'' (Inl ''Expecting value''))
                 (GithubCreateRepo := Response 201 ''Created'' (Inr repo_json))\<rparr>"

text \<open>The registrar reports the domain available and refuses the purchase.\<close>

definition registrar_refuses :: world where
  "registrar_refuses =
     calm_world\<lparr>answer := (answer calm_world)
       (GodaddyAvailable := Response 200 ''OK'' (Inr [(''available'', JBool True)]),
        GodaddyPurchase := Response 402 ''Payment Required'' (Inr []))\<rparr>"

text \<open>The same, and the application does not answer the monitoring probes yet.\<close>

definition registrar_refuses_app_starting :: world where
  "registrar_refuses_app_starting =
     registrar_refuses\<lparr>answer := (answer registrar_refuses)
       (MonitorHealth := Raised ''Read timed out. (read timeout=30)'',
        MonitorUptime := Raised ''Read timed out. (read timeout=30)'')\<rparr>"

text \<open>The health probe of the verification times out.\<close>

definition health_times_out :: world where
  "health_times_out =
     calm_world\<lparr>answer := (answer calm_world)
       (VerifyHealth := Raised ''Read timed out. (read timeout=30)'')\<rparr>"

text \<open>Credentials for SendGrid and Mailgun, with an empty Mailchimp key.\<close>

definition two_mailers :: credentials where
  "two_mailers =
     [(''MAILCHIMP_API_KEY'', Some []), (''SENDGRID_API_KEY'', Some ''SG.1''),
      (''MAILGUN_API_KEY'', Some ''key-1'')]"


text \<open>Everything answers favourably, but the application does not answer the monitoring
  probes yet.\<close>

definition app_starting :: world where
  "app_starting =
     calm_world\<lparr>answer := (answer calm_world)
       (MonitorHealth := Raised ''Read timed out. (read timeout=30)'',
        MonitorUptime := Raised ''Read timed out. (read timeout=30)'')\<rparr>"

section \<open>Running the steps\<close>

lemma say_then [simp]:
  "py_bind (say e) f s = f () (s\<lparr>deployment_log := deployment_log s @ [e]\<rparr>)"
  by (simp add: py_bind_def say_def)

lemma call_push_then [simp]:
  "py_bind (call_push args m) f s =
     f (fst (m (files s)))
       (s\<lparr>trace := trace s @ Call ''_push_mvp_files'' args # fst (snd (m (files s))),
          files := snd (snd (m (files s)))\<rparr>)"
  by (simp add: py_bind_def call_push_def split: prod.splits)

lemma call_then [simp]:
  "py_bind (call name args r) f s = f (fst r) (s\<lparr>trace := trace s @ Call name args # snd r\<rparr>)"
  by (simp add: py_bind_def call_def)

lemma return_then [simp]: "py_bind (py_return x) f s = f x s"
  by (simp add: py_bind_def py_return_def)

lemma raise_then [simp]: "py_bind (py_raise e) f s = (Inl e, s)"
  by (simp add: py_bind_def py_raise_def)

lemma str_nat_clock: "str_nat 1753843786 = ''1753843786''" "str_nat 1753843787 = ''1753843787''"
  by (simp_all add: str_nat.simps digit_def)

lemma str_nat_status: "str_nat 422 = ''422''" "str_nat 503 = ''503''" "str_nat 500 = ''500''"
  by (simp_all add: str_nat.simps digit_def)

lemma title_platform:
  "title ''railway'' = ''Railway''" "title ''render'' = ''Render''" "title ''vercel'' = ''Vercel''"
  by code_simp+

lemma py_bind_assoc [simp]:
  "py_bind (py_bind m f) g = py_bind m (\<lambda>x. py_bind (f x) g)"
  by (rule ext) (simp add: py_bind_def split: prod.splits sum.splits)

lemma if_then [simp]:
  "py_bind (if b then m else n) f = (if b then py_bind m f else py_bind n f)"
  by simp

lemma create_repository_events:
  "snd (create_repository w name) = [HttpPost ''https://api.github.com/user/repos'']"
  by (simp add: create_repository_def github_api_def)

lemma error_of_then [simp]:
  "py_bind (error_of (Outcome b None)) f s = (Inl (KeyError ''error''), s)"
  "py_bind (error_of (Outcome b (Some m))) f s = f m s"
  by (simp_all add: error_of_def)

lemma setup_domain_error:
  "\<not> succeeded (fst (setup_domain w creds d url)) \<Longrightarrow>
   \<exists>m. fst (setup_domain w creds d url) = Outcome False (Some m)"
  by (auto simp add: setup_domain_def check_domain_availability_def register_domain_def
        configure_dns_def Let_def
      split: if_splits prod.splits availability.splits reply.splits sum.splits)

lemma setup_monitoring_no_error:
  "fst (setup_monitoring w creds url name) =
     Outcome (succeeded (fst (setup_monitoring w creds url name))) None"
  by (simp add: setup_monitoring_def Let_def)

text \<open>The run up to the selection of the platform, when the repository is created and the
  files are pushed.\<close>

lemma deploy_try_selection:
  assumes "fst (create_repository w (''ai-content-optimizer-'' @ str_nat (clock_repo w))) =
             Repository u c"
    and "fst (push_mvp_files w mvp_path c (files s0)) = Pushed"
  shows "deploy_try w self mvp_path p custom_domain (s0\<lparr>deployment_log := []\<rparr>) =
           select_and_provision w self (''ai-content-optimizer-'' @ str_nat (clock_repo w)) u p
             custom_domain
             (s0\<lparr>files := snd (snd (push_mvp_files w mvp_path c (files s0))),
                 trace := trace s0 @
                   [Call ''create_repository'' [''ai-content-optimizer-'' @ str_nat (clock_repo w)],
                    HttpPost ''https://api.github.com/user/repos'',
                    Call ''_push_mvp_files'' [mvp_path, c]] @
                   fst (snd (push_mvp_files w mvp_path c (files s0))) @
                   [Call ''setup_environment_variables''
                      [''ai-content-optimizer-'' @ str_nat (clock_repo w)]] @
                   snd (setup_environment_variables w
                          (''ai-content-optimizer-'' @ str_nat (clock_repo w))
                          (prepare_environment_variables self)),
                 deployment_log :=
                   [CreatingRepository, RepositoryCreated u, PushingFiles, FilesPushed,
                    SettingUpEnvironment,
                    if fst (setup_environment_variables w
                              (''ai-content-optimizer-'' @ str_nat (clock_repo w))
                              (prepare_environment_variables self))
                    then EnvironmentConfigured else EnvironmentIssues]\<rparr>)"
  using assms create_repository_events [of w "''ai-content-optimizer-'' @ str_nat (clock_repo w)"]
  by (cases "fst (setup_environment_variables w
                    (''ai-content-optimizer-'' @ str_nat (clock_repo w))
                    (prepare_environment_variables self))")
     (simp_all add: deploy_try_def Let_def)

lemma usual_push:
  assumes "clock_push w = 1753843787" and "makedirs_error w = None"
    and "subprocess w = (\<lambda>g. None)"
    and "listing w = (\<lambda>path. [(''main.py'', False), (''templates'', True)])"
    and "copy_error w = (\<lambda>item. None)"
  shows "push_mvp_files w ''/tmp/mvp'' c (files start) =
           (Pushed,
            [Run [''git'', ''clone'', c, ''/tmp/deploy_1753843787''],
             CopyFile ''main.py'' ''/tmp/deploy_1753843787/main.py'',
             CopyTree ''templates'' ''/tmp/deploy_1753843787/templates'',
             Run [''git'', ''add'', ''.''],
             Run [''git'', ''commit'', ''-m'', ''Initial MVP deployment''],
             Run [''git'', ''push'', ''origin'', ''main'']],
            \<lparr>cwd = ''/home/ubuntu'',
             dirs = {''/tmp/deploy_1753843787/templates'', ''/tmp/deploy_1753843787'',
                     ''/home/ubuntu'', ''/tmp''}\<rparr>)"
  using assms
  by (simp add: push_mvp_files_def push_try_def io_bind_def io_finally_def io_return_def
        makedirs_def run_def getcwd_def chdir_def temp_dir_at_def str_nat_clock start_def Let_def)

lemma usual_repository:
  assumes "answer w GithubCreateRepo = Response 201 ''Created'' (Inr repo_json)"
  shows "fst (create_repository w name) =
           Repository ''https://github.com/acme/ai-content-optimizer-1753843786''
             ''https://github.com/acme/ai-content-optimizer-1753843786.git''"
  using assms by (simp add: create_repository_def repo_fields_def subscript_def repo_json_def)

lemma calm_secrets:
  "setup_environment_variables calm_world ''ai-content-optimizer-1753843786''
     (prepare_environment_variables self) =
     (True,
      [HttpGet ''https://api.github.com/user/repos'' None,
       HttpPut ''https://api.github.com/repos/acme/ai-content-optimizer-1753843786/actions/secrets/OPENAI_API_KEY'',
       HttpPut ''https://api.github.com/repos/acme/ai-content-optimizer-1753843786/actions/secrets/STRIPE_SECRET_KEY'',
       HttpPut ''https://api.github.com/repos/acme/ai-content-optimizer-1753843786/actions/secrets/SECRET_KEY'',
       HttpPut ''https://api.github.com/repos/acme/ai-content-optimizer-1753843786/actions/secrets/FLASK_ENV'',
       HttpPut ''https://api.github.com/repos/acme/ai-content-optimizer-1753843786/actions/secrets/PRICE_ID'',
       HttpPut ''https://api.github.com/repos/acme/ai-content-optimizer-1753843786/actions/secrets/TELEGRAM_BOT_TOKEN'',
       HttpPut ''https://api.github.com/repos/acme/ai-content-optimizer-1753843786/actions/secrets/TELEGRAM_USER_ID''])"
  by (simp add: setup_environment_variables_def prepare_environment_variables_def calm_world_def
        repo_json_def subscript_def github_api_def)

lemma services_down_secrets:
  "setup_environment_variables services_down name env_vars =
     (False, [HttpGet ''https://api.github.com/user/repos'' None])"
  by (simp add: setup_environment_variables_def services_down_def github_api_def)










lemma render_only_platforms: "platforms (AutonomousDeployer w render_only) = [''render'']"
  by (simp add: AutonomousDeployer_def render_only_def truthy_def get_def)

lemma calm_repository:
  "fst (create_repository calm_world (''ai-content-optimizer-'' @ str_nat (clock_repo calm_world))) =
     Repository ''https://github.com/acme/ai-content-optimizer-1753843786''
       ''https://github.com/acme/ai-content-optimizer-1753843786.git''"
  by (rule usual_repository) (simp add: calm_world_def)

lemma calm_push:
  "push_mvp_files calm_world ''/tmp/mvp''
     ''https://github.com/acme/ai-content-optimizer-1753843786.git'' (files start) =
     (Pushed,
      [Run [''git'', ''clone'', ''https://github.com/acme/ai-content-optimizer-1753843786.git'',
            ''/tmp/deploy_1753843787''],
       CopyFile ''main.py'' ''/tmp/deploy_1753843787/main.py'',
       CopyTree ''templates'' ''/tmp/deploy_1753843787/templates'',
       Run [''git'', ''add'', ''.''],
       Run [''git'', ''commit'', ''-m'', ''Initial MVP deployment''],
       Run [''git'', ''push'', ''origin'', ''main'']],
      \<lparr>cwd = ''/home/ubuntu'',
       dirs = {''/tmp/deploy_1753843787/templates'', ''/tmp/deploy_1753843787'',
               ''/home/ubuntu'', ''/tmp''}\<rparr>)"
  by (rule usual_push) (simp_all add: calm_world_def)

lemma calm_unregistered_run:
  "deploy_mvp calm_world (AutonomousDeployer calm_world render_only) ''/tmp/mvp'' ''railway'' None start =
     (failure (''Platform railway not available. Available: ['' @ quote ''render'' @ '']'')
        [CreatingRepository,
         RepositoryCreated ''https://github.com/acme/ai-content-optimizer-1753843786'',
         PushingFiles, FilesPushed, SettingUpEnvironment, EnvironmentConfigured,
         DeployingTo ''railway''],
      \<lparr>deployment_log =
         [CreatingRepository,
          RepositoryCreated ''https://github.com/acme/ai-content-optimizer-1753843786'',
          PushingFiles, FilesPushed, SettingUpEnvironment, EnvironmentConfigured,
          DeployingTo ''railway''],
       trace =
         [Call ''create_repository'' [''ai-content-optimizer-1753843786''],
          HttpPost ''https://api.github.com/user/repos'',
          Call ''_push_mvp_files''
            [''/tmp/mvp'', ''https://github.com/acme/ai-content-optimizer-1753843786.git''],
          Run [''git'', ''clone'', ''https://github.com/acme/ai-content-optimizer-1753843786.git'',
               ''/tmp/deploy_1753843787''],
          CopyFile ''main.py'' ''/tmp/deploy_1753843787/main.py'',
          CopyTree ''templates'' ''/tmp/deploy_1753843787/templates'',
          Run [''git'', ''add'', ''.''],
          Run [''git'', ''commit'', ''-m'', ''Initial MVP deployment''],
          Run [''git'', ''push'', ''origin'', ''main''],
          Call ''setup_environment_variables'' [''ai-content-optimizer-1753843786''],
          HttpGet ''https://api.github.com/user/repos'' None,
          HttpPut ''https://api.github.com/repos/acme/ai-content-optimizer-1753843786/actions/secrets/OPENAI_API_KEY'',
          HttpPut ''https://api.github.com/repos/acme/ai-content-optimizer-1753843786/actions/secrets/STRIPE_SECRET_KEY'',
          HttpPut ''https://api.github.com/repos/acme/ai-content-optimizer-1753843786/actions/secrets/SECRET_KEY'',
          HttpPut ''https://api.github.com/repos/acme/ai-content-optimizer-1753843786/actions/secrets/FLASK_ENV'',
          HttpPut ''https://api.github.com/repos/acme/ai-content-optimizer-1753843786/actions/secrets/PRICE_ID'',
          HttpPut ''https://api.github.com/repos/acme/ai-content-optimizer-1753843786/actions/secrets/TELEGRAM_BOT_TOKEN'',
          HttpPut ''https://api.github.com/repos/acme/ai-content-optimizer-1753843786/actions/secrets/TELEGRAM_USER_ID''],
       files =
         \<lparr>cwd = ''/home/ubuntu'',
          dirs = {''/tmp/deploy_1753843787/templates'', ''/tmp/deploy_1753843787'',
                  ''/home/ubuntu'', ''/tmp''}\<rparr>\<rparr>)"
proof -
  have push: "fst (push_mvp_files calm_world ''/tmp/mvp''
                     ''https://github.com/acme/ai-content-optimizer-1753843786.git''
                     (files start)) = Pushed"
    by (simp add: calm_push)
  have clock: "clock_repo calm_world = 1753843786"
    by (simp add: calm_world_def)
  have "deploy_mvp calm_world (AutonomousDeployer calm_world render_only) ''/tmp/mvp'' ''railway'' None start =
          (failure (''Platform railway not available. Available: ['' @ quote ''render'' @ '']'')
             [CreatingRepository,
              RepositoryCreated ''https://github.com/acme/ai-content-optimizer-1753843786'',
              PushingFiles, FilesPushed, SettingUpEnvironment, EnvironmentConfigured,
              DeployingTo ''railway''],
           start\<lparr>files :=
                   \<lparr>cwd = ''/home/ubuntu'',
                    dirs = {''/tmp/deploy_1753843787/templates'', ''/tmp/deploy_1753843787'',
                            ''/home/ubuntu'', ''/tmp''}\<rparr>,
                 trace := trace start @
                   [Call ''create_repository'' [''ai-content-optimizer-1753843786''],
                    HttpPost ''https://api.github.com/user/repos'',
                    Call ''_push_mvp_files''
                      [''/tmp/mvp'',
                       ''https://github.com/acme/ai-content-optimizer-1753843786.git''],
                    Run [''git'', ''clone'',
                         ''https://github.com/acme/ai-content-optimizer-1753843786.git'',
                         ''/tmp/deploy_1753843787''],
                    CopyFile ''main.py'' ''/tmp/deploy_1753843787/main.py'',
                    CopyTree ''templates'' ''/tmp/deploy_1753843787/templates'',
                    Run [''git'', ''add'', ''.''],
                    Run [''git'', ''commit'', ''-m'', ''Initial MVP deployment''],
                    Run [''git'', ''push'', ''origin'', ''main''],
                    Call ''setup_environment_variables'' [''ai-content-optimizer-1753843786''],
                    HttpGet ''https://api.github.com/user/repos'' None,
                    HttpPut ''https://api.github.com/repos/acme/ai-content-optimizer-1753843786/actions/secrets/OPENAI_API_KEY'',
                    HttpPut ''https://api.github.com/repos/acme/ai-content-optimizer-1753843786/actions/secrets/STRIPE_SECRET_KEY'',
                    HttpPut ''https://api.github.com/repos/acme/ai-content-optimizer-1753843786/actions/secrets/SECRET_KEY'',
                    HttpPut ''https://api.github.com/repos/acme/ai-content-optimizer-1753843786/actions/secrets/FLASK_ENV'',
                    HttpPut ''https://api.github.com/repos/acme/ai-content-optimizer-1753843786/actions/secrets/PRICE_ID'',
                    HttpPut ''https://api.github.com/repos/acme/ai-content-optimizer-1753843786/actions/secrets/TELEGRAM_BOT_TOKEN'',
                    HttpPut ''https://api.github.com/repos/acme/ai-content-optimizer-1753843786/actions/secrets/TELEGRAM_USER_ID''],
                 deployment_log :=
                   [CreatingRepository,
                    RepositoryCreated ''https://github.com/acme/ai-content-optimizer-1753843786'',
                    PushingFiles, FilesPushed, SettingUpEnvironment, EnvironmentConfigured,
                    DeployingTo ''railway'']\<rparr>)"
    by (simp add: deploy_mvp_def deploy_try_selection [OF calm_repository push]
          select_and_provision_def return_failure_def render_only_platforms str_list_def
          clock calm_secrets str_nat_clock calm_push)
  then show ?thesis
    by (simp add: start_def)
qed

lemma rejected_run:
  "fst (deploy_mvp rejecting_github (AutonomousDeployer rejecting_github render_only) ''/tmp/mvp'' ''railway''
          None start) =
     failure ''GitHub repository creation failed: GitHub API error: 422 - name already exists on this account''
       [CreatingRepository]"
  by (simp add: deploy_mvp_def deploy_try_def create_repository_def rejecting_github_def
        calm_world_def return_failure_def str_nat_status Let_def)

lemma services_down_raises:
  "fst (deploy_try services_down (AutonomousDeployer services_down usual_credentials) ''/tmp/mvp'' ''railway''
          (Some ''example.com'') (start\<lparr>deployment_log := []\<rparr>)) = Inl (KeyError ''error'')"
proof -
  let ?self = "AutonomousDeployer services_down usual_credentials"
  have repo: "fst (create_repository services_down
                     (''ai-content-optimizer-'' @ str_nat (clock_repo services_down))) =
                Repository ''https://github.com/acme/ai-content-optimizer-1753843786''
                  ''https://github.com/acme/ai-content-optimizer-1753843786.git''"
    by (rule usual_repository) (simp add: services_down_def)
  have push: "fst (push_mvp_files services_down ''/tmp/mvp''
                     ''https://github.com/acme/ai-content-optimizer-1753843786.git''
                     (files start)) = Pushed"
    by (subst usual_push) (simp_all add: services_down_def calm_world_def)
  have registered: "''railway'' \<in> set (platforms ?self)"
    by (simp add: AutonomousDeployer_def usual_credentials_def truthy_def get_def)
  have provisioned: "snd (adapter_result services_down ''railway'') =
                       Provisioned ''https://ai-content-optimizer-1753843788.up.railway.app''
                         (Some ''svc-1'') None"
    by (simp add: adapter_result_def services_down_def calm_world_def)
  have domain: "fst (setup_domain services_down (credentials ?self) ''example.com''
                       ''https://ai-content-optimizer-1753843788.up.railway.app'') =
                  Outcome False (Some ''Domain availability check failed: 503'')"
    by (simp add: setup_domain_def check_domain_availability_def godaddy_ready_def
          AutonomousDeployer_def usual_credentials_def truthy_def get_def services_down_def
          str_nat_status)
  have monitoring: "fst (setup_monitoring services_down (credentials ?self)
                           ''https://ai-content-optimizer-1753843788.up.railway.app''
                           (''ai-content-optimizer-'' @ str_nat (clock_repo services_down))) =
                      Outcome False None"
    by (simp add: setup_monitoring_def setup_health_check_monitoring_def
          setup_uptime_monitoring_def AutonomousDeployer_def usual_credentials_def truthy_def get_def
          services_down_def Let_def)
  show ?thesis
    using registered provisioned domain monitoring
    by (simp add: deploy_try_selection [OF repo push] select_and_provision_def
          provision_on_def after_provision_def domain_step_def monitoring_step_def)
qed

lemma py_bind_Inr:
  assumes "py_bind m k s = (Inr r, s')"
  obtains x s1 where "m s = (Inr x, s1)" and "k x s1 = (Inr r, s')"
  using assms by (auto simp add: py_bind_def split: prod.splits sum.splits)

lemma return_failure_Inr:
  "return_failure msg s = (Inr r, s') \<Longrightarrow> \<not> success r \<and> verification r = None"
  by (auto simp add: return_failure_def failure_def)

lemma verify_and_return_Inr:
  assumes "verify_and_return w a ru p sid did s = (Inr r, s')"
  shows "success r \<and> verification r = Some (fst (verify_deployment w a))"
  using assms by (auto simp add: verify_and_return_def)

lemma after_provision_Inr:
  assumes "after_provision w self name ru p cd url sid did s = (Inr r, s')"
  shows "success r \<and> (\<exists>a. verification r = Some (fst (verify_deployment w a)))"
  using assms unfolding after_provision_def
  by (elim py_bind_Inr) (auto dest: verify_and_return_Inr)

lemma select_and_provision_Inr:
  assumes "select_and_provision w self name ru p cd s = (Inr r, s')"
  shows "(\<not> success r \<and> verification r = None)
         \<or> (success r \<and> (\<exists>a. verification r = Some (fst (verify_deployment w a))))"
  using assms unfolding select_and_provision_def
  by (auto elim!: py_bind_Inr dest!: return_failure_Inr after_provision_Inr
        split: if_splits provision.splits)

lemma deploy_try_Inr:
  assumes "deploy_try w self mvp_path p cd s = (Inr r, s')"
  shows "(\<not> success r \<and> verification r = None)
         \<or> (success r \<and> (\<exists>a. verification r = Some (fst (verify_deployment w a))))"
  using assms unfolding deploy_try_def Let_def
  by (auto elim!: py_bind_Inr dest!: return_failure_Inr select_and_provision_Inr
        split: repo_result.splits push_result.splits)

lemma deploy_mvp_verified:
  "verification (fst (deploy_mvp w self mvp_path p cd s0)) = Some v \<Longrightarrow>
   success (fst (deploy_mvp w self mvp_path p cd s0))"
proof -
  assume v: "verification (fst (deploy_mvp w self mvp_path p cd s0)) = Some v"
  obtain x s where run: "deploy_try w self mvp_path p cd (s0\<lparr>deployment_log := []\<rparr>) = (x, s)"
    by (cases "deploy_try w self mvp_path p cd (s0\<lparr>deployment_log := []\<rparr>)") auto
  show ?thesis
  proof (cases x)
    case (Inl e)
    then show ?thesis using v run by (simp add: deploy_mvp_def failure_def Let_def)
  next
    case (Inr r)
    then have "fst (deploy_mvp w self mvp_path p cd s0) = r"
      using run by (simp add: deploy_mvp_def)
    then show ?thesis using deploy_try_Inr [of w self mvp_path p cd _ r s] run Inr v by auto
  qed
qed

lemma health_times_out_run:
  "verification (fst (deploy_mvp health_times_out
                        (AutonomousDeployer health_times_out usual_credentials)
                        ''/tmp/mvp'' ''railway'' None start)) =
     Some \<lparr>health_check = False, main_page = False, overall_status = False,
           verification_error = Some ''Read timed out. (read timeout=30)''\<rparr>"
proof -
  have repo: "fst (create_repository health_times_out
                     (''ai-content-optimizer-'' @ str_nat (clock_repo health_times_out))) =
                Repository ''https://github.com/acme/ai-content-optimizer-1753843786''
                  ''https://github.com/acme/ai-content-optimizer-1753843786.git''"
    by (rule usual_repository) (simp add: health_times_out_def calm_world_def)
  have push: "fst (push_mvp_files health_times_out ''/tmp/mvp''
                     ''https://github.com/acme/ai-content-optimizer-1753843786.git''
                     (files start)) = Pushed"
    by (subst usual_push) (simp_all add: health_times_out_def calm_world_def)
  show ?thesis
    unfolding deploy_mvp_def deploy_try_selection [OF repo push]
    by (simp add: select_and_provision_def
          provision_on_def adapter_result_def after_provision_def domain_step_def
          monitoring_step_def cicd_step_def email_step_def business_step_def
          verify_and_return_def setup_monitoring_def setup_health_check_monitoring_def
          setup_uptime_monitoring_def setup_pipeline_def create_github_actions_workflow_def
          setup_notifications_def setup_mailchimp_notifications_def setup_operations_def
          verify_deployment_def AutonomousDeployer_def usual_credentials_def truthy_def
          get_def health_times_out_def calm_world_def Let_def)
qed






lemma usual_secrets:
  assumes "answer w GithubListRepos = Response 200 ''OK'' (Inr [])"
    and "repos_listed w = Inr [repo_json]"
    and "\<And>key. answer w (SecretPut key) = Response 200 ''OK'' (Inr [])"
    and "clock_repo w = 1753843786"
  shows "fst (setup_environment_variables w (''ai-content-optimizer-'' @ str_nat (clock_repo w))
                (prepare_environment_variables self))"
  using assms
  by (simp add: setup_environment_variables_def prepare_environment_variables_def
        repo_json_def subscript_def str_nat_clock)

lemma usual_platforms:
  "platforms (AutonomousDeployer w usual_credentials) = [''render'', ''railway'', ''vercel'']"
  "credentials (AutonomousDeployer w usual_credentials) = usual_credentials"
  by (simp_all add: AutonomousDeployer_def usual_credentials_def truthy_def get_def)

lemma registrar_refuses_domain:
  assumes "answer w GodaddyAvailable = Response 200 ''OK'' (Inr [(''available'', JBool True)])"
    and "answer w GodaddyPurchase = Response 402 ''Payment Required'' (Inr [])"
  shows "setup_domain w usual_credentials ''example.com'' url =
           (Outcome False (Some ''Domain registration failed: 402 - Payment Required''),
            [HttpGet ''https://api.godaddy.com/v1/domains/available?domain=example.com'' None,
             HttpPost ''https://api.godaddy.com/v1/domains/purchase''])"
proof -
  have "str_nat 402 = ''402''"
    by (simp add: str_nat.simps digit_def)
  then show ?thesis
    using assms
    by (simp add: setup_domain_def check_domain_availability_def register_domain_def
          godaddy_ready_def godaddy_base_url_def get_default_def usual_credentials_def
          truthy_def get_def)
qed

lemma monitoring_up:
  assumes "answer w MonitorHealth = Response 200 health_text health_body"
    and "answer w MonitorUptime = Response 200 main_text main_body"
  shows "fst (setup_monitoring w usual_credentials url name) = Outcome True None"
  using assms
  by (simp add: setup_monitoring_def setup_health_check_monitoring_def
        setup_uptime_monitoring_def usual_credentials_def truthy_def get_def Let_def)

lemma monitoring_silent:
  assumes "answer w MonitorHealth = Raised m" and "answer w MonitorUptime = Raised m'"
  shows "fst (setup_monitoring w usual_credentials url name) = Outcome False None"
  using assms
  by (simp add: setup_monitoring_def setup_health_check_monitoring_def
        setup_uptime_monitoring_def usual_credentials_def truthy_def get_def Let_def)

lemma pipeline_up:
  assumes "answer w WorkflowPut = Response 200 body_text body"
  shows "fst (setup_pipeline w usual_credentials name p) = Outcome True None"
  using assms
  by (simp add: setup_pipeline_def create_github_actions_workflow_def usual_credentials_def
        truthy_def get_def)

lemma mailchimp_up:
  assumes "answer w MailchimpCampaigns = Response 200 body_text body"
  shows "fst (setup_notifications w usual_credentials url name) = Outcome True None"
  using assms
  by (simp add: setup_notifications_def setup_mailchimp_notifications_def usual_credentials_def
        truthy_def get_def)

lemma operations_up: "fst (setup_operations w creds url name) = Outcome True None"
  by (simp add: setup_operations_def Let_def)

lemma verification_up:
  assumes "answer w VerifyHealth = Response 200 health_text health_body"
    and "answer w VerifyMain = Response 200 main_text main_body"
  shows "fst (verify_deployment w url) =
           \<lparr>health_check = True, main_page = True, overall_status = True,
            verification_error = None\<rparr>"
  using assms by (simp add: verify_deployment_def Let_def)

lemma railway_provisioned:
  assumes "deploy_project w = Provisioned url service_id did"
  shows "adapter_result w ''railway'' = (''deploy_project'', Provisioned url service_id did)"
  using assms by (simp add: adapter_result_def)

lemma registrar_refuses_run:
  "fst (deploy_mvp registrar_refuses (AutonomousDeployer registrar_refuses usual_credentials)
          ''/tmp/mvp'' ''railway'' (Some ''example.com'') start) =
     \<lparr>success = True, error = None,
      app_url = Some ''https://ai-content-optimizer-1753843788.up.railway.app'',
      repo_url = Some ''https://github.com/acme/ai-content-optimizer-1753843786'',
      platform = Some ''railway'', deployment_id = Some ''svc-1'',
      verification = Some \<lparr>health_check = True, main_page = True, overall_status = True,
                              verification_error = None\<rparr>,
      log = [CreatingRepository,
             RepositoryCreated ''https://github.com/acme/ai-content-optimizer-1753843786'',
             PushingFiles, FilesPushed, SettingUpEnvironment, EnvironmentConfigured,
             DeployingTo ''railway'',
             DeployedTo ''https://ai-content-optimizer-1753843788.up.railway.app'',
             SettingUpDomain ''example.com'',
             DomainFailed ''Domain registration failed: 402 - Payment Required'',
             SettingUpMonitoring, MonitoringConfigured, SettingUpCICD, CICDConfigured,
             SettingUpEmail, EmailConfigured, SettingUpBusiness, BusinessConfigured,
             RunningVerification]\<rparr>"
proof -
  let ?w = registrar_refuses
  have repo: "fst (create_repository ?w (''ai-content-optimizer-'' @ str_nat (clock_repo ?w))) =
                Repository ''https://github.com/acme/ai-content-optimizer-1753843786''
                  ''https://github.com/acme/ai-content-optimizer-1753843786.git''"
    by (rule usual_repository) (simp add: registrar_refuses_def calm_world_def)
  have push: "fst (push_mvp_files ?w ''/tmp/mvp''
                     ''https://github.com/acme/ai-content-optimizer-1753843786.git''
                     (files start)) = Pushed"
    by (subst usual_push) (simp_all add: registrar_refuses_def calm_world_def)
  have secrets: "fst (setup_environment_variables ?w
                        (''ai-content-optimizer-'' @ str_nat (clock_repo ?w))
                        (prepare_environment_variables self))" for self
    by (rule usual_secrets) (simp_all add: registrar_refuses_def calm_world_def)
  have provisioned: "adapter_result ?w ''railway'' =
      (''deploy_project'',
       Provisioned ''https://ai-content-optimizer-1753843788.up.railway.app'' (Some ''svc-1'') None)"
    by (rule railway_provisioned) (simp add: registrar_refuses_def calm_world_def)
  have domain: "fst (setup_domain ?w usual_credentials ''example.com'' url) =
                  Outcome False (Some ''Domain registration failed: 402 - Payment Required'')"
    for url
    by (subst registrar_refuses_domain) (simp_all add: registrar_refuses_def)
  have monitoring: "fst (setup_monitoring ?w usual_credentials url name) = Outcome True None"
    for url name
    by (rule monitoring_up) (simp_all add: registrar_refuses_def calm_world_def)
  have pipeline: "fst (setup_pipeline ?w usual_credentials name p) = Outcome True None"
    for name p
    by (rule pipeline_up) (simp add: registrar_refuses_def calm_world_def)
  have email: "fst (setup_notifications ?w usual_credentials url name) = Outcome True None"
    for url name
    by (rule mailchimp_up) (simp add: registrar_refuses_def calm_world_def)
  have verified: "fst (verify_deployment ?w url) =
           \<lparr>health_check = True, main_page = True, overall_status = True,
            verification_error = None\<rparr>" for url
    by (rule verification_up) (simp_all add: registrar_refuses_def calm_world_def)
  show ?thesis
    unfolding deploy_mvp_def deploy_try_selection [OF repo push]
    using secrets [of "AutonomousDeployer ?w usual_credentials"]
    by (simp add: provisioned domain monitoring pipeline email operations_up verified
          usual_platforms select_and_provision_def provision_on_def after_provision_def
          domain_step_def monitoring_step_def cicd_step_def email_step_def business_step_def
          verify_and_return_def truthy_def)
qed

lemma registrar_refuses_app_starting_run:
  "fst (deploy_mvp registrar_refuses_app_starting
          (AutonomousDeployer registrar_refuses_app_starting usual_credentials)
          ''/tmp/mvp'' ''railway'' (Some ''example.com'') start) =
     failure (quote ''error'')
       [CreatingRepository,
        RepositoryCreated ''https://github.com/acme/ai-content-optimizer-1753843786'',
        PushingFiles, FilesPushed, SettingUpEnvironment, EnvironmentConfigured,
        DeployingTo ''railway'',
        DeployedTo ''https://ai-content-optimizer-1753843788.up.railway.app'',
        SettingUpDomain ''example.com'',
        DomainFailed ''Domain registration failed: 402 - Payment Required'',
        SettingUpMonitoring, DeploymentFailed (quote ''error'')]"
proof -
  let ?w = registrar_refuses_app_starting
  have repo: "fst (create_repository ?w (''ai-content-optimizer-'' @ str_nat (clock_repo ?w))) =
                Repository ''https://github.com/acme/ai-content-optimizer-1753843786''
                  ''https://github.com/acme/ai-content-optimizer-1753843786.git''"
    by (rule usual_repository)
       (simp add: registrar_refuses_app_starting_def registrar_refuses_def calm_world_def)
  have push: "fst (push_mvp_files ?w ''/tmp/mvp''
                     ''https://github.com/acme/ai-content-optimizer-1753843786.git''
                     (files start)) = Pushed"
    by (subst usual_push)
       (simp_all add: registrar_refuses_app_starting_def registrar_refuses_def calm_world_def)
  have secrets: "fst (setup_environment_variables ?w
                        (''ai-content-optimizer-'' @ str_nat (clock_repo ?w))
                        (prepare_environment_variables self))" for self
    by (rule usual_secrets)
       (simp_all add: registrar_refuses_app_starting_def registrar_refuses_def calm_world_def)
  have provisioned: "adapter_result ?w ''railway'' =
      (''deploy_project'',
       Provisioned ''https://ai-content-optimizer-1753843788.up.railway.app'' (Some ''svc-1'') None)"
    by (rule railway_provisioned)
       (simp add: registrar_refuses_app_starting_def registrar_refuses_def calm_world_def)
  have domain: "fst (setup_domain ?w usual_credentials ''example.com'' url) =
                  Outcome False (Some ''Domain registration failed: 402 - Payment Required'')"
    for url
    by (subst registrar_refuses_domain)
       (simp_all add: registrar_refuses_app_starting_def registrar_refuses_def)
  have monitoring: "fst (setup_monitoring ?w usual_credentials url name) = Outcome False None"
    for url name
    by (rule monitoring_silent) (simp_all add: registrar_refuses_app_starting_def)
  show ?thesis
    unfolding deploy_mvp_def deploy_try_selection [OF repo push]
    using secrets [of "AutonomousDeployer ?w usual_credentials"]
    by (simp add: provisioned domain monitoring usual_platforms
          select_and_provision_def provision_on_def after_provision_def domain_step_def
          monitoring_step_def failure_def)
qed

lemma setup_pipeline_error:
  "\<not> succeeded (fst (setup_pipeline w creds name p)) \<Longrightarrow>
   \<exists>m. fst (setup_pipeline w creds name p) = Outcome False (Some m)"
  by (auto simp add: setup_pipeline_def create_github_actions_workflow_def
      split: if_splits reply.splits prod.splits)

lemma setup_notifications_error:
  "\<not> succeeded (fst (setup_notifications w creds url name)) \<Longrightarrow>
   \<exists>m. fst (setup_notifications w creds url name) = Outcome False (Some m)"
  by (auto simp add: setup_notifications_def setup_mailchimp_notifications_def
        setup_sendgrid_notifications_def setup_mailgun_notifications_def
      split: if_splits reply.splits sum.splits)

text \<open>A step that logs its failure: it returns, with one more line in the log.\<close>

lemma logged_step:
  assumes "succeeded r \<or> (\<exists>m. r = Outcome False (Some m))"
  shows "\<exists>l. (if succeeded r then say configured
              else py_bind (error_of r) (\<lambda>m. say (failed m))) s =
             (Inr (), s\<lparr>deployment_log := deployment_log s @ [l]\<rparr>)"
proof (cases "succeeded r")
  case True
  then show ?thesis by (auto simp add: say_def)
next
  case False
  then obtain m where "r = Outcome False (Some m)"
    using assms by auto
  then show ?thesis by (auto simp add: say_def)
qed

lemma monitoring_step_runs:
  assumes "succeeded (fst (setup_monitoring w (credentials self) url name))"
  shows "\<exists>s'. monitoring_step w self url name s = (Inr (), s')
           \<and> trace s' = trace s @ Call ''setup_monitoring'' [url, name] #
                          snd (setup_monitoring w (credentials self) url name)
           \<and> files s' = files s"
  using assms by (simp add: monitoring_step_def say_def)

lemma monitoring_step_raises:
  assumes "\<not> succeeded (fst (setup_monitoring w (credentials self) url name))"
  shows "\<exists>s'. monitoring_step w self url name s = (Inl (KeyError ''error''), s')
           \<and> trace s' = trace s @ Call ''setup_monitoring'' [url, name] #
                          snd (setup_monitoring w (credentials self) url name)
           \<and> deployment_log s' = deployment_log s @ [SettingUpMonitoring]
           \<and> files s' = files s"
proof -
  have "fst (setup_monitoring w (credentials self) url name) = Outcome False None"
    using assms setup_monitoring_no_error [of w "credentials self" url name] by simp
  then show ?thesis
    by (simp add: monitoring_step_def)
qed

lemma cicd_step_runs:
  "\<exists>s'. cicd_step w self name p s = (Inr (), s')
     \<and> trace s' = trace s @ Call ''setup_pipeline'' [name, p] #
                    snd (setup_pipeline w (credentials self) name p)
     \<and> files s' = files s"
proof -
  let ?s = "s\<lparr>deployment_log := deployment_log s @ [SettingUpCICD],
              trace := trace s @ Call ''setup_pipeline'' [name, p] #
                       snd (setup_pipeline w (credentials self) name p)\<rparr>"
  obtain l where
    "(if succeeded (fst (setup_pipeline w (credentials self) name p)) then say CICDConfigured
      else py_bind (error_of (fst (setup_pipeline w (credentials self) name p)))
             (\<lambda>m. say (CICDFailed m))) ?s =
     (Inr (), ?s\<lparr>deployment_log := deployment_log ?s @ [l]\<rparr>)"
    using logged_step [of "fst (setup_pipeline w (credentials self) name p)"
        CICDConfigured CICDFailed ?s] setup_pipeline_error [of w "credentials self" name p]
    by blast
  then show ?thesis
    by (simp add: cicd_step_def)
qed

lemma email_step_runs:
  "\<exists>s'. email_step w self url name s = (Inr (), s')
     \<and> trace s' = trace s @ Call ''setup_notifications'' [url, name] #
                    snd (setup_notifications w (credentials self) url name)
     \<and> files s' = files s"
proof -
  let ?s = "s\<lparr>deployment_log := deployment_log s @ [SettingUpEmail],
              trace := trace s @ Call ''setup_notifications'' [url, name] #
                       snd (setup_notifications w (credentials self) url name)\<rparr>"
  obtain l where
    "(if succeeded (fst (setup_notifications w (credentials self) url name))
      then say EmailConfigured
      else py_bind (error_of (fst (setup_notifications w (credentials self) url name)))
             (\<lambda>m. say (EmailFailed m))) ?s =
     (Inr (), ?s\<lparr>deployment_log := deployment_log ?s @ [l]\<rparr>)"
    using logged_step [of "fst (setup_notifications w (credentials self) url name)"
        EmailConfigured EmailFailed ?s]
      setup_notifications_error [of w "credentials self" url name]
    by blast
  then show ?thesis
    by (simp add: email_step_def)
qed

lemma business_step_runs:
  "\<exists>s'. business_step w self url name s = (Inr (), s')
     \<and> trace s' = trace s @ [Call ''setup_operations'' [url, name]]
     \<and> files s' = files s"
  by (simp add: business_step_def operations_up say_def setup_operations_def Let_def)

text \<open>Lines 131 to 171 when monitoring reports a success.\<close>

lemma configured_and_verified:
  assumes "succeeded (fst (setup_monitoring w (credentials self) url name))"
  shows "\<exists>r s'.
           py_bind (monitoring_step w self url name) (\<lambda>u.
           py_bind (cicd_step w self name p) (\<lambda>u.
           py_bind (email_step w self url name) (\<lambda>u.
           py_bind (business_step w self url name) (\<lambda>u.
           verify_and_return w url ru p service_id did)))) s = (Inr r, s')
           \<and> success r \<and> app_url r = Some url
           \<and> verification r = Some (fst (verify_deployment w url))
           \<and> trace s' = trace s @
                [Call ''setup_monitoring'' [url, name]] @
                snd (setup_monitoring w (credentials self) url name) @
                [Call ''setup_pipeline'' [name, p]] @
                snd (setup_pipeline w (credentials self) name p) @
                [Call ''setup_notifications'' [url, name]] @
                snd (setup_notifications w (credentials self) url name) @
                [Call ''setup_operations'' [url, name], Call ''_verify_deployment'' [url]] @
                snd (verify_deployment w url)"
proof -
  obtain s1 where s1: "monitoring_step w self url name s = (Inr (), s1)"
    "trace s1 = trace s @ Call ''setup_monitoring'' [url, name] #
                snd (setup_monitoring w (credentials self) url name)"
    using monitoring_step_runs [OF assms, of s] by blast
  obtain s2 where s2: "cicd_step w self name p s1 = (Inr (), s2)"
    "trace s2 = trace s1 @ Call ''setup_pipeline'' [name, p] #
                snd (setup_pipeline w (credentials self) name p)"
    using cicd_step_runs [of w self name p s1] by blast
  obtain s3 where s3: "email_step w self url name s2 = (Inr (), s3)"
    "trace s3 = trace s2 @ Call ''setup_notifications'' [url, name] #
                snd (setup_notifications w (credentials self) url name)"
    using email_step_runs [of w self url name s2] by blast
  obtain s4 where s4: "business_step w self url name s3 = (Inr (), s4)"
    "trace s4 = trace s3 @ [Call ''setup_operations'' [url, name]]"
    using business_step_runs [of w self url name s3] by blast
  show ?thesis
    using s1 s2 s3 s4
    by (simp add: py_bind_def verify_and_return_def say_def call_def)
qed

lemma aborted_at_monitoring:
  assumes "\<not> succeeded (fst (setup_monitoring w (credentials self) url name))"
  shows "\<exists>s'.
           py_bind (monitoring_step w self url name) (\<lambda>u.
           py_bind (cicd_step w self name p) (\<lambda>u.
           py_bind (email_step w self url name) (\<lambda>u.
           py_bind (business_step w self url name) (\<lambda>u.
           verify_and_return w url ru p service_id did)))) s = (Inl (KeyError ''error''), s')
           \<and> trace s' = trace s @
                [Call ''setup_monitoring'' [url, name]] @
                snd (setup_monitoring w (credentials self) url name)"
proof -
  obtain s1 where "monitoring_step w self url name s = (Inl (KeyError ''error''), s1)"
    "trace s1 = trace s @ Call ''setup_monitoring'' [url, name] #
                snd (setup_monitoring w (credentials self) url name)"
    using monitoring_step_raises [OF assms, of s] by blast
  then show ?thesis
    by (simp add: py_bind_def)
qed

section \<open>Repository creation fails\<close>

text \<open>
  C4. Whenever \<^verbatim>\<open>create_repository\<close> reports a failure with message \<open>m\<close>,
  \<^verbatim>\<open>deploy_mvp\<close> returns \<^verbatim>\<open>success = False\<close> with the error
  "GitHub repository creation failed: \<open>m\<close>", a log of exactly one entry, and nothing
  happened but the call that creates the repository: no push, no secrets, no
  provisioning, and the file system is as before.
\<close>

theorem repository_failure_stops_pipeline:
  assumes "fst (create_repository w (''ai-content-optimizer-'' @ str_nat (clock_repo w))) =
             RepositoryFailed m"
  shows "fst (deploy_mvp w self mvp_path p custom_domain s0) =
           failure (''GitHub '' @ ''repository creation failed'' @ '': '' @ m) [CreatingRepository]
         \<and> success (fst (deploy_mvp w self mvp_path p custom_domain s0)) = False
         \<and> length (log (fst (deploy_mvp w self mvp_path p custom_domain s0))) = 1
         \<and> trace (snd (deploy_mvp w self mvp_path p custom_domain s0)) =
             trace s0 @
             [Call ''create_repository'' [''ai-content-optimizer-'' @ str_nat (clock_repo w)],
              HttpPost ''https://api.github.com/user/repos'']
         \<and> files (snd (deploy_mvp w self mvp_path p custom_domain s0)) = files s0"
proof -
  have posts: "snd (create_repository w (''ai-content-optimizer-'' @ str_nat (clock_repo w))) =
                 [HttpPost ''https://api.github.com/user/repos'']"
    by (simp add: create_repository_def github_api_def)
  have run: "deploy_try w self mvp_path p custom_domain (s0\<lparr>deployment_log := []\<rparr>) =
               (Inr (failure (''GitHub repository creation failed: '' @ m) [CreatingRepository]),
                s0\<lparr>deployment_log := [CreatingRepository],
                   trace := trace s0 @
                     [Call ''create_repository'' [''ai-content-optimizer-'' @ str_nat (clock_repo w)],
                      HttpPost ''https://api.github.com/user/repos'']\<rparr>)"
    using assms posts by (simp add: deploy_try_def Let_def return_failure_def)
  show ?thesis
    by (simp add: deploy_mvp_def run failure_def)
qed

theorem repository_failure_stops_pipeline_witness:
  "fst (create_repository rejecting_github
          (''ai-content-optimizer-'' @ str_nat (clock_repo rejecting_github))) =
     RepositoryFailed ''GitHub API error: 422 - name already exists on this account''
   \<and> error (fst (deploy_mvp rejecting_github (AutonomousDeployer rejecting_github usual_credentials)
                   ''/tmp/mvp'' ''railway'' None start)) =
       Some ''GitHub repository creation failed: GitHub API error: 422 - name already exists on this account''
   \<and> log (fst (deploy_mvp rejecting_github (AutonomousDeployer rejecting_github usual_credentials)
                 ''/tmp/mvp'' ''railway'' None start)) = [CreatingRepository]
   \<and> trace (snd (deploy_mvp rejecting_github (AutonomousDeployer rejecting_github usual_credentials)
                   ''/tmp/mvp'' ''railway'' None start)) =
       [Call ''create_repository'' [''ai-content-optimizer-1753843786''],
        HttpPost ''https://api.github.com/user/repos'']"
proof -
  have h: "fst (create_repository rejecting_github
                  (''ai-content-optimizer-'' @ str_nat (clock_repo rejecting_github))) =
             RepositoryFailed ''GitHub API error: 422 - name already exists on this account''"
    by (simp add: create_repository_def rejecting_github_def calm_world_def str_nat_status)
  have c: "clock_repo rejecting_github = 1753843786"
    by (simp add: rejecting_github_def calm_world_def)
  show ?thesis
    using h repository_failure_stops_pipeline [OF h, of "AutonomousDeployer rejecting_github usual_credentials"
        "''/tmp/mvp''" "''railway''" None start]
    by (simp add: failure_def c str_nat_clock start_def)
qed

section \<open>A failing monitoring step\<close>

text \<open>
  C5, as the code runs. The repository is created, the files are pushed, the requested
  platform is registered and its adapter provisions the service at \<open>url\<close>; the binding
  of the custom domain \<open>d\<close> fails with message \<open>m\<close>. If \<^verbatim>\<open>setup_monitoring\<close> then
  reports no successful service, \<^verbatim>\<open>deploy_mvp\<close> does not return \<^verbatim>\<open>success = True\<close>:
  reading \<^verbatim>\<open>monitoring_result['error']\<close> at line 136 raises \<^verbatim>\<open>KeyError\<close>, the handler
  of line 173 takes over, and the result is \<^verbatim>\<open>success = False\<close> with the error
  \<^verbatim>\<open>'error'\<close> and no \<^verbatim>\<open>app_url\<close>. The failure of the secrets and of the domain is a log
  entry only; the steps after monitoring are not run.
\<close>

theorem monitoring_failure_aborts:
  assumes "fst (create_repository w (''ai-content-optimizer-'' @ str_nat (clock_repo w))) =
             Repository u c"
    and "fst (push_mvp_files w mvp_path c (files s0)) = Pushed"
    and "p \<in> set (platforms self)"
    and "snd (adapter_result w p) = Provisioned url service_id deployment_id'"
    and "d \<noteq> []"
    and "fst (setup_domain w (credentials self) d url) = Outcome False (Some m)"
    and "\<not> succeeded (fst (setup_monitoring w (credentials self) url
                              (''ai-content-optimizer-'' @ str_nat (clock_repo w))))"
  shows "fst (deploy_mvp w self mvp_path p (Some d) s0) =
           failure (quote ''error'')
             [CreatingRepository, RepositoryCreated u, PushingFiles, FilesPushed,
              SettingUpEnvironment,
              if fst (setup_environment_variables w
                        (''ai-content-optimizer-'' @ str_nat (clock_repo w))
                        (prepare_environment_variables self))
              then EnvironmentConfigured else EnvironmentIssues,
              DeployingTo p, DeployedTo url, SettingUpDomain d, DomainFailed m,
              SettingUpMonitoring, DeploymentFailed (quote ''error'')]
         \<and> success (fst (deploy_mvp w self mvp_path p (Some d) s0)) = False"
proof -
  let ?name = "''ai-content-optimizer-'' @ str_nat (clock_repo w)"
  have mon: "fst (setup_monitoring w (credentials self) url ?name) = Outcome False None"
    using assms(7) setup_monitoring_no_error [of w "credentials self" url ?name] by simp
  show ?thesis
    using assms(3-6) mon
    by (simp add: deploy_mvp_def deploy_try_selection [OF assms(1,2)] select_and_provision_def
          provision_on_def after_provision_def domain_step_def monitoring_step_def failure_def)
qed

theorem monitoring_failure_aborts_witness:
  "fst (deploy_mvp services_down (AutonomousDeployer services_down usual_credentials) ''/tmp/mvp'' ''railway''
          (Some ''example.com'') start) =
     failure (quote ''error'')
       [CreatingRepository,
        RepositoryCreated ''https://github.com/acme/ai-content-optimizer-1753843786'',
        PushingFiles, FilesPushed, SettingUpEnvironment, EnvironmentIssues,
        DeployingTo ''railway'',
        DeployedTo ''https://ai-content-optimizer-1753843788.up.railway.app'',
        SettingUpDomain ''example.com'',
        DomainFailed ''Domain availability check failed: 503'',
        SettingUpMonitoring, DeploymentFailed (quote ''error'')]"
proof -
  let ?self = "AutonomousDeployer services_down usual_credentials"
  let ?url = "''https://ai-content-optimizer-1753843788.up.railway.app''"
  have repo: "fst (create_repository services_down
                     (''ai-content-optimizer-'' @ str_nat (clock_repo services_down))) =
                Repository ''https://github.com/acme/ai-content-optimizer-1753843786''
                  ''https://github.com/acme/ai-content-optimizer-1753843786.git''"
    by (rule usual_repository) (simp add: services_down_def)
  have push: "fst (push_mvp_files services_down ''/tmp/mvp''
                     ''https://github.com/acme/ai-content-optimizer-1753843786.git''
                     (files start)) = Pushed"
    by (subst usual_push) (simp_all add: services_down_def calm_world_def)
  have registered: "''railway'' \<in> set (platforms ?self)"
    by (simp add: AutonomousDeployer_def usual_credentials_def truthy_def get_def)
  have provisioned: "snd (adapter_result services_down ''railway'') =
                       Provisioned ?url (Some ''svc-1'') None"
    by (simp add: adapter_result_def services_down_def calm_world_def)
  have domain: "fst (setup_domain services_down (credentials ?self) ''example.com'' ?url) =
                  Outcome False (Some ''Domain availability check failed: 503'')"
    by (simp add: setup_domain_def check_domain_availability_def godaddy_ready_def
          AutonomousDeployer_def usual_credentials_def truthy_def get_def services_down_def
          str_nat_status)
  have monitoring: "\<not> succeeded (fst (setup_monitoring services_down (credentials ?self) ?url
                       (''ai-content-optimizer-'' @ str_nat (clock_repo services_down))))"
    by (simp add: setup_monitoring_def setup_health_check_monitoring_def
          setup_uptime_monitoring_def AutonomousDeployer_def usual_credentials_def truthy_def get_def
          services_down_def Let_def)
  have secrets: "\<not> fst (setup_environment_variables services_down
                         (''ai-content-optimizer-'' @ str_nat (clock_repo services_down))
                         (prepare_environment_variables ?self))"
    by (simp add: services_down_secrets)
  show ?thesis
    using monitoring_failure_aborts [OF repo push registered provisioned _ domain monitoring]
      secrets
    by (simp add: title_platform)
qed

section \<open>Exceptions of the pipeline\<close>

text \<open>
  C3. \<^verbatim>\<open>deploy_mvp\<close> returns a result on every input. When the body of its \<^verbatim>\<open>try\<close>
  statement raises an exception \<open>e\<close> in a state \<open>s\<close>, the handler returns
  \<^verbatim>\<open>success = False\<close> with the error \<^verbatim>\<open>str(e)\<close>, and the returned log is the log
  accumulated in \<open>s\<close> followed by the line "Deployment failed: \<^verbatim>\<open>str(e)\<close>"; it is the
  list that the local variable \<^verbatim>\<open>deployment_log\<close> holds at the return.
\<close>

theorem exception_becomes_failure:
  assumes "deploy_try w self mvp_path p custom_domain (s0\<lparr>deployment_log := []\<rparr>) = (Inl e, s)"
  shows "fst (deploy_mvp w self mvp_path p custom_domain s0) =
           failure (str e) (deployment_log s @ [DeploymentFailed (str e)])
         \<and> success (fst (deploy_mvp w self mvp_path p custom_domain s0)) = False
         \<and> error (fst (deploy_mvp w self mvp_path p custom_domain s0)) = Some (str e)
         \<and> butlast (log (fst (deploy_mvp w self mvp_path p custom_domain s0))) = deployment_log s
         \<and> deployment_log (snd (deploy_mvp w self mvp_path p custom_domain s0)) =
             log (fst (deploy_mvp w self mvp_path p custom_domain s0))"
  using assms by (simp add: deploy_mvp_def failure_def Let_def)

theorem exception_becomes_failure_witness:
  "fst (deploy_try services_down (AutonomousDeployer services_down usual_credentials) ''/tmp/mvp'' ''railway''
          (Some ''example.com'') (start\<lparr>deployment_log := []\<rparr>)) = Inl (KeyError ''error'')
   \<and> success (fst (deploy_mvp services_down (AutonomousDeployer services_down usual_credentials) ''/tmp/mvp''
                     ''railway'' (Some ''example.com'') start)) = False
   \<and> error (fst (deploy_mvp services_down (AutonomousDeployer services_down usual_credentials) ''/tmp/mvp''
                   ''railway'' (Some ''example.com'') start)) = Some (quote ''error'')"
proof -
  let ?run = "deploy_try services_down (AutonomousDeployer services_down usual_credentials) ''/tmp/mvp''
                ''railway'' (Some ''example.com'') (start\<lparr>deployment_log := []\<rparr>)"
  have raised: "?run = (Inl (KeyError ''error''), snd ?run)"
    using services_down_raises by (simp add: prod_eq_iff)
  show ?thesis
    using exception_becomes_failure [OF raised] services_down_raises
    by (simp add: failure_def)
qed

section \<open>A platform that is not registered\<close>




text \<open>
  C2, amended. For every request for a platform that is not registered, in which the
  repository is created and the files are pushed, \<^verbatim>\<open>deploy_mvp\<close> returns
  \<^verbatim>\<open>success = False\<close>, the error lists the registered identifiers, quoted and between
  brackets, and the log holds the two lines of the repository, the two of the push, the
  two of the secrets and then the line "Deploying to \<open>P\<close>..." that line 99 appends before
  the registry is consulted; it holds nothing of a later stage.
\<close>

theorem unregistered_platform_error_and_log:
  assumes "fst (create_repository w (''ai-content-optimizer-'' @ str_nat (clock_repo w))) =
             Repository u c"
    and "fst (push_mvp_files w mvp_path c (files s0)) = Pushed"
    and "p \<notin> set (platforms self)"
  shows "fst (deploy_mvp w self mvp_path p custom_domain s0) =
           failure (''Platform '' @ p @ '' not available. Available: ['' @
                    join_keys (platforms self) @ '']'')
             [CreatingRepository, RepositoryCreated u,
              PushingFiles, FilesPushed,
              SettingUpEnvironment,
              if fst (setup_environment_variables w
                        (''ai-content-optimizer-'' @ str_nat (clock_repo w))
                        (prepare_environment_variables self))
              then EnvironmentConfigured else EnvironmentIssues,
              DeployingTo p]"
  using assms(3)
  by (simp add: deploy_mvp_def deploy_try_selection [OF assms(1,2)] select_and_provision_def
        return_failure_def failure_def str_list_def)

theorem unregistered_platform_error_and_log_witness:
  "fst (deploy_mvp calm_world (AutonomousDeployer calm_world render_only) ''/tmp/mvp'' ''vercel''
          (Some ''example.com'') start) =
     failure (''Platform vercel not available. Available: ['' @ quote ''render'' @ '']'')
       [CreatingRepository,
        RepositoryCreated ''https://github.com/acme/ai-content-optimizer-1753843786'',
        PushingFiles, FilesPushed, SettingUpEnvironment, EnvironmentConfigured,
        DeployingTo ''vercel'']"
proof -
  have push: "fst (push_mvp_files calm_world ''/tmp/mvp''
                     ''https://github.com/acme/ai-content-optimizer-1753843786.git''
                     (files start)) = Pushed"
    by (simp add: calm_push)
  have unregistered: "''vercel'' \<notin> set (platforms (AutonomousDeployer calm_world render_only))"
    by (simp add: render_only_platforms)
  have secrets: "fst (setup_environment_variables calm_world
                        (''ai-content-optimizer-'' @ str_nat (clock_repo calm_world))
                        (prepare_environment_variables (AutonomousDeployer calm_world render_only)))"
    by (simp add: calm_world_def str_nat_clock calm_secrets [unfolded calm_world_def])
  show ?thesis
    using unregistered_platform_error_and_log
      [OF calm_repository push unregistered, of "Some ''example.com''"] secrets
    by (simp add: render_only_platforms title_platform)
qed

text \<open>
  With credentials for Render only and a request for Railway: when GitHub refuses the
  repository, the error is the one of the repository and names no platform, and the log
  has the single line of the repository; when the earlier stages succeed, the last line
  of the log is the announcement of the deployment.
\<close>

theorem unregistered_platform_log_counterexample:
  "''railway'' \<notin> set (platforms (AutonomousDeployer rejecting_github render_only))
   \<and> fst (deploy_mvp rejecting_github (AutonomousDeployer rejecting_github render_only) ''/tmp/mvp'' ''railway''
            None start) =
       failure ''GitHub repository creation failed: GitHub API error: 422 - name already exists on this account''
         [CreatingRepository]
   \<and> last (log (fst (deploy_mvp calm_world (AutonomousDeployer calm_world render_only) ''/tmp/mvp''
                       ''railway'' None start))) = DeployingTo ''railway''"
  by (simp add: rejected_run calm_unregistered_run render_only_platforms failure_def)

section \<open>Verification\<close>

text \<open>
  C6, amended. \<^verbatim>\<open>_verify_deployment\<close> sends a GET to the health path under
  \<^verbatim>\<open>app_url\<close> and, unless that request raises, a GET to \<^verbatim>\<open>app_url\<close> itself, each with
  a timeout of 30: two probes when the first returns a response, one when it raises.
  \<^verbatim>\<open>overall_status\<close> is true exactly when both answer with status 200. When a probe
  raises (timeout, transport error) all three flags are false, the \<^verbatim>\<open>error\<close> field holds
  the text of the exception, and nothing is raised. Whatever the verification reports,
  the return statement of lines 162 to 171 sets \<^verbatim>\<open>success\<close> to true, and every result
  of \<^verbatim>\<open>deploy_mvp\<close> that carries a verification has \<^verbatim>\<open>success = True\<close>.
\<close>

theorem verification_probes_and_flags:
  "snd (verify_deployment w url) =
     (case answer w VerifyHealth of
        Raised m \<Rightarrow> [HttpGet (url @ ''/api/health'') (Some 30)]
      | Response code body_text body \<Rightarrow>
          [HttpGet (url @ ''/api/health'') (Some 30), HttpGet url (Some 30)])
   \<and> overall_status (fst (verify_deployment w url)) =
       ((\<exists>health_text health_body. answer w VerifyHealth = Response 200 health_text health_body)
        \<and> (\<exists>main_text main_body. answer w VerifyMain = Response 200 main_text main_body))
   \<and> (answer w VerifyHealth = Raised m \<longrightarrow>
        fst (verify_deployment w url) =
          \<lparr>health_check = False, main_page = False, overall_status = False,
           verification_error = Some m\<rparr>)
   \<and> (answer w VerifyHealth = Response code body_text body \<and> answer w VerifyMain = Raised m \<longrightarrow>
        fst (verify_deployment w url) =
          \<lparr>health_check = False, main_page = False, overall_status = False,
           verification_error = Some m\<rparr>)
   \<and> (\<exists>r s'. verify_and_return w url ru p service_id did s = (Inr r, s')
          \<and> success r \<and> verification r = Some (fst (verify_deployment w url)))
   \<and> (verification (fst (deploy_mvp w self mvp_path p custom_domain s0)) \<noteq> None \<longrightarrow>
        success (fst (deploy_mvp w self mvp_path p custom_domain s0)))"
proof -
  have probes: "snd (verify_deployment w url) =
     (case answer w VerifyHealth of
        Raised m \<Rightarrow> [HttpGet (url @ ''/api/health'') (Some 30)]
      | Response code body_text body \<Rightarrow>
          [HttpGet (url @ ''/api/health'') (Some 30), HttpGet url (Some 30)])"
    by (simp add: verify_deployment_def Let_def split: reply.splits)
  have status: "overall_status (fst (verify_deployment w url)) =
       ((\<exists>health_text health_body. answer w VerifyHealth = Response 200 health_text health_body)
        \<and> (\<exists>main_text main_body. answer w VerifyMain = Response 200 main_text main_body))"
    by (auto simp add: verify_deployment_def Let_def split: reply.splits)
  have raised: "answer w VerifyHealth = Raised m \<longrightarrow>
        fst (verify_deployment w url) =
          \<lparr>health_check = False, main_page = False, overall_status = False,
           verification_error = Some m\<rparr>"
    "answer w VerifyHealth = Response code body_text body \<and> answer w VerifyMain = Raised m \<longrightarrow>
        fst (verify_deployment w url) =
          \<lparr>health_check = False, main_page = False, overall_status = False,
           verification_error = Some m\<rparr>"
    by (simp_all add: verify_deployment_def Let_def)
  have returned: "\<exists>r s'. verify_and_return w url ru p service_id did s = (Inr r, s')
          \<and> success r \<and> verification r = Some (fst (verify_deployment w url))"
    by (simp add: verify_and_return_def)
  have unchanged: "verification (fst (deploy_mvp w self mvp_path p custom_domain s0)) \<noteq> None \<longrightarrow>
        success (fst (deploy_mvp w self mvp_path p custom_domain s0))"
    using deploy_mvp_verified [of w self mvp_path p custom_domain s0] by auto
  show ?thesis
    using probes status raised returned unchanged by blast
qed

theorem verification_probes_and_flags_witness:
  "snd (verify_deployment health_times_out
          ''https://ai-content-optimizer-1753843788.up.railway.app'') =
     [HttpGet ''https://ai-content-optimizer-1753843788.up.railway.app/api/health'' (Some 30)]
   \<and> fst (verify_deployment health_times_out
            ''https://ai-content-optimizer-1753843788.up.railway.app'') =
       \<lparr>health_check = False, main_page = False, overall_status = False,
        verification_error = Some ''Read timed out. (read timeout=30)''\<rparr>
   \<and> verification (fst (deploy_mvp health_times_out
                          (AutonomousDeployer health_times_out usual_credentials)
                          ''/tmp/mvp'' ''railway'' None start)) =
       Some \<lparr>health_check = False, main_page = False, overall_status = False,
             verification_error = Some ''Read timed out. (read timeout=30)''\<rparr>
   \<and> success (fst (deploy_mvp health_times_out
                     (AutonomousDeployer health_times_out usual_credentials)
                     ''/tmp/mvp'' ''railway'' None start))"
proof -
  have health: "answer health_times_out VerifyHealth = Raised ''Read timed out. (read timeout=30)''"
    by (simp add: health_times_out_def)
  show ?thesis
    using verification_probes_and_flags [where w = health_times_out
        and url = "''https://ai-content-optimizer-1753843788.up.railway.app''"
        and m = "''Read timed out. (read timeout=30)''"
        and self = "AutonomousDeployer health_times_out usual_credentials"
        and mvp_path = "''/tmp/mvp''" and p = "''railway''" and custom_domain = None
        and ?s0.0 = start]
      health health_times_out_run
    by simp
qed

text \<open>When the health probe times out, the verification has sent one request.\<close>

theorem verification_probes_counterexample:
  "length (snd (verify_deployment health_times_out
                  ''https://ai-content-optimizer-1753843788.up.railway.app'')) = 1
   \<and> answer health_times_out VerifyHealth = Raised ''Read timed out. (read timeout=30)''"
  by (simp add: verify_deployment_def health_times_out_def)

section \<open>The workspace of the push\<close>




section \<open>A domain that cannot be bound\<close>

text \<open>
  C7, as the code runs. The registrar reports \<^verbatim>\<open>example.com\<close> available and refuses the
  purchase: \<^verbatim>\<open>setup_domain\<close> checks the availability, tries the registration and stops
  there, without touching the DNS records. When the application answers the monitoring
  probes, \<^verbatim>\<open>deploy_mvp\<close> logs the failure of the domain and returns \<^verbatim>\<open>success = True\<close>
  with the address the platform gave. When the application does not answer them yet,
  the same request ends with \<^verbatim>\<open>success = False\<close> and the error \<^verbatim>\<open>'error'\<close>: the
  failure of the domain is logged as before, and then line 136 raises \<^verbatim>\<open>KeyError\<close>.
\<close>

theorem domain_failure_then_monitoring_failure:
  "snd (setup_domain registrar_refuses usual_credentials ''example.com''
          ''https://ai-content-optimizer-1753843788.up.railway.app'') =
     [HttpGet ''https://api.godaddy.com/v1/domains/available?domain=example.com'' None,
      HttpPost ''https://api.godaddy.com/v1/domains/purchase'']
   \<and> success (fst (deploy_mvp registrar_refuses
                     (AutonomousDeployer registrar_refuses usual_credentials)
                     ''/tmp/mvp'' ''railway'' (Some ''example.com'') start)) = True
   \<and> app_url (fst (deploy_mvp registrar_refuses
                     (AutonomousDeployer registrar_refuses usual_credentials)
                     ''/tmp/mvp'' ''railway'' (Some ''example.com'') start)) =
       Some ''https://ai-content-optimizer-1753843788.up.railway.app''
   \<and> fst (deploy_mvp registrar_refuses_app_starting
            (AutonomousDeployer registrar_refuses_app_starting usual_credentials)
            ''/tmp/mvp'' ''railway'' (Some ''example.com'') start) =
       failure (quote ''error'')
         [CreatingRepository,
          RepositoryCreated ''https://github.com/acme/ai-content-optimizer-1753843786'',
          PushingFiles, FilesPushed, SettingUpEnvironment, EnvironmentConfigured,
          DeployingTo ''railway'',
          DeployedTo ''https://ai-content-optimizer-1753843788.up.railway.app'',
          SettingUpDomain ''example.com'',
          DomainFailed ''Domain registration failed: 402 - Payment Required'',
          SettingUpMonitoring, DeploymentFailed (quote ''error'')]
   \<and> success (fst (deploy_mvp registrar_refuses_app_starting
                     (AutonomousDeployer registrar_refuses_app_starting usual_credentials)
                     ''/tmp/mvp'' ''railway'' (Some ''example.com'') start)) = False"
proof -
  have domain: "setup_domain registrar_refuses usual_credentials ''example.com''
          ''https://ai-content-optimizer-1753843788.up.railway.app'' =
           (Outcome False (Some ''Domain registration failed: 402 - Payment Required''),
            [HttpGet ''https://api.godaddy.com/v1/domains/available?domain=example.com'' None,
             HttpPost ''https://api.godaddy.com/v1/domains/purchase''])"
    by (rule registrar_refuses_domain) (simp_all add: registrar_refuses_def)
  show ?thesis
    by (simp add: domain registrar_refuses_run registrar_refuses_app_starting_run failure_def)
qed

section \<open>A custom domain that is bound\<close>

text \<open>
  C10. The repository is created, the files are pushed, the requested platform is
  registered and its adapter provisions the service at \<open>url\<close>, and \<^verbatim>\<open>setup_domain\<close>
  succeeds for the requested domain \<open>d\<close>. Then every later step is called with
  \<^verbatim>\<open>https://\<close>\<open>d\<close> and not with \<open>url\<close>: monitoring always, and, when monitoring reports a
  success, the email notifications, the business operations and the verification, whose
  two probes go to \<^verbatim>\<open>https://\<close>\<open>d\<close>\<^verbatim>\<open>/api/health\<close> and \<^verbatim>\<open>https://\<close>\<open>d\<close>; the result then has
  \<^verbatim>\<open>success = True\<close> and \<^verbatim>\<open>app_url\<close> equal to \<^verbatim>\<open>https://\<close>\<open>d\<close>. When monitoring reports no
  success, the run stops there with a failure that carries no \<^verbatim>\<open>app_url\<close>.
\<close>

theorem custom_domain_is_served:
  assumes "fst (create_repository w (''ai-content-optimizer-'' @ str_nat (clock_repo w))) =
             Repository u c"
    and "fst (push_mvp_files w mvp_path c (files s0)) = Pushed"
    and "p \<in> set (platforms self)"
    and "snd (adapter_result w p) = Provisioned url service_id did"
    and "d \<noteq> []"
    and "succeeded (fst (setup_domain w (credentials self) d url))"
  shows "trace (snd (deploy_mvp w self mvp_path p (Some d) s0)) =
           trace s0 @
           [Call ''create_repository'' [''ai-content-optimizer-'' @ str_nat (clock_repo w)],
            HttpPost ''https://api.github.com/user/repos'',
            Call ''_push_mvp_files'' [mvp_path, c]] @
           fst (snd (push_mvp_files w mvp_path c (files s0))) @
           [Call ''setup_environment_variables''
              [''ai-content-optimizer-'' @ str_nat (clock_repo w)]] @
           snd (setup_environment_variables w
                  (''ai-content-optimizer-'' @ str_nat (clock_repo w))
                  (prepare_environment_variables self)) @
           [Call (fst (adapter_result w p)) [u]] @ adapter_requests w p @
           [Call ''setup_domain'' [d, url]] @
           snd (setup_domain w (credentials self) d url) @
           [Call ''setup_monitoring''
              [''https://'' @ d, ''ai-content-optimizer-'' @ str_nat (clock_repo w)]] @
           snd (setup_monitoring w (credentials self) (''https://'' @ d)
                  (''ai-content-optimizer-'' @ str_nat (clock_repo w))) @
           (if succeeded (fst (setup_monitoring w (credentials self) (''https://'' @ d)
                                 (''ai-content-optimizer-'' @ str_nat (clock_repo w))))
            then
              [Call ''setup_pipeline'' [''ai-content-optimizer-'' @ str_nat (clock_repo w), p]] @
              snd (setup_pipeline w (credentials self)
                     (''ai-content-optimizer-'' @ str_nat (clock_repo w)) p) @
              [Call ''setup_notifications''
                 [''https://'' @ d, ''ai-content-optimizer-'' @ str_nat (clock_repo w)]] @
              snd (setup_notifications w (credentials self) (''https://'' @ d)
                     (''ai-content-optimizer-'' @ str_nat (clock_repo w))) @
              [Call ''setup_operations''
                 [''https://'' @ d, ''ai-content-optimizer-'' @ str_nat (clock_repo w)],
               Call ''_verify_deployment'' [''https://'' @ d]] @
              snd (verify_deployment w (''https://'' @ d))
            else [])
         \<and> (if succeeded (fst (setup_monitoring w (credentials self) (''https://'' @ d)
                                  (''ai-content-optimizer-'' @ str_nat (clock_repo w))))
             then success (fst (deploy_mvp w self mvp_path p (Some d) s0))
                  \<and> app_url (fst (deploy_mvp w self mvp_path p (Some d) s0)) =
                      Some (''https://'' @ d)
                  \<and> verification (fst (deploy_mvp w self mvp_path p (Some d) s0)) =
                      Some (fst (verify_deployment w (''https://'' @ d)))
             else \<not> success (fst (deploy_mvp w self mvp_path p (Some d) s0))
                  \<and> app_url (fst (deploy_mvp w self mvp_path p (Some d) s0)) = None)"
proof -
  let ?name = "''ai-content-optimizer-'' @ str_nat (clock_repo w)"
  let ?custom = "''https://'' @ d"
  let ?s = "s0\<lparr>files := snd (snd (push_mvp_files w mvp_path c (files s0))),
                 trace := trace s0 @
                   [Call ''create_repository'' [?name],
                    HttpPost ''https://api.github.com/user/repos'',
                    Call ''_push_mvp_files'' [mvp_path, c]] @
                   fst (snd (push_mvp_files w mvp_path c (files s0))) @
                   [Call ''setup_environment_variables'' [?name]] @
                   snd (setup_environment_variables w ?name (prepare_environment_variables self)) @
                   [Call (fst (adapter_result w p)) [u]] @ adapter_requests w p @
                   [Call ''setup_domain'' [d, url]] @
                   snd (setup_domain w (credentials self) d url),
                 deployment_log :=
                   [CreatingRepository, RepositoryCreated u, PushingFiles, FilesPushed,
                    SettingUpEnvironment,
                    if fst (setup_environment_variables w ?name
                              (prepare_environment_variables self))
                    then EnvironmentConfigured else EnvironmentIssues,
                    DeployingTo p, DeployedTo url, SettingUpDomain d,
                    DomainConfigured ?custom]\<rparr>"
  let ?rest = "py_bind (monitoring_step w self ?custom ?name) (\<lambda>x.
           py_bind (cicd_step w self ?name p) (\<lambda>x.
           py_bind (email_step w self ?custom ?name) (\<lambda>x.
           py_bind (business_step w self ?custom ?name) (\<lambda>x.
           verify_and_return w ?custom u p service_id did))))"
  have run: "deploy_try w self mvp_path p (Some d) (s0\<lparr>deployment_log := []\<rparr>) = ?rest ?s"
    using assms(3-6)
    by (cases "fst (setup_environment_variables w ?name (prepare_environment_variables self))")
       (simp_all add: deploy_try_selection [OF assms(1,2)] select_and_provision_def
          provision_on_def after_provision_def domain_step_def)
  show ?thesis
  proof (cases "succeeded (fst (setup_monitoring w (credentials self) ?custom ?name))")
    case True
    obtain r s' where "?rest ?s = (Inr r, s')" "success r" "app_url r = Some ?custom"
      "verification r = Some (fst (verify_deployment w ?custom))"
      "trace s' = trace ?s @
                [Call ''setup_monitoring'' [?custom, ?name]] @
                snd (setup_monitoring w (credentials self) ?custom ?name) @
                [Call ''setup_pipeline'' [?name, p]] @
                snd (setup_pipeline w (credentials self) ?name p) @
                [Call ''setup_notifications'' [?custom, ?name]] @
                snd (setup_notifications w (credentials self) ?custom ?name) @
                [Call ''setup_operations'' [?custom, ?name],
                 Call ''_verify_deployment'' [?custom]] @
                snd (verify_deployment w ?custom)"
      using configured_and_verified [OF True, of p u service_id did ?s] by blast
    then show ?thesis
      using True by (simp add: deploy_mvp_def run)
  next
    case False
    obtain s' where "?rest ?s = (Inl (KeyError ''error''), s')"
      "trace s' = trace ?s @
                [Call ''setup_monitoring'' [?custom, ?name]] @
                snd (setup_monitoring w (credentials self) ?custom ?name)"
      using aborted_at_monitoring [OF False, of p u service_id did ?s] by blast
    then show ?thesis
      using False by (simp add: deploy_mvp_def run failure_def Let_def)
  qed
qed

theorem custom_domain_is_served_witness:
  "succeeded (fst (setup_domain app_starting usual_credentials ''example.com''
                     ''https://ai-content-optimizer-1753843788.up.railway.app''))
   \<and> \<not> succeeded (fst (setup_monitoring app_starting usual_credentials ''https://example.com''
                           ''ai-content-optimizer-1753843786''))
   \<and> success (fst (deploy_mvp app_starting (AutonomousDeployer app_starting usual_credentials)
                     ''/tmp/mvp'' ''railway'' (Some ''example.com'') start)) = False
   \<and> app_url (fst (deploy_mvp app_starting (AutonomousDeployer app_starting usual_credentials)
                     ''/tmp/mvp'' ''railway'' (Some ''example.com'') start)) = None
   \<and> last (trace (snd (deploy_mvp app_starting (AutonomousDeployer app_starting usual_credentials)
                          ''/tmp/mvp'' ''railway'' (Some ''example.com'') start))) =
       HttpGet ''https://example.com'' (Some 30)
   \<and> success (fst (deploy_mvp calm_world (AutonomousDeployer calm_world usual_credentials)
                     ''/tmp/mvp'' ''railway'' (Some ''example.com'') start))
   \<and> app_url (fst (deploy_mvp calm_world (AutonomousDeployer calm_world usual_credentials)
                     ''/tmp/mvp'' ''railway'' (Some ''example.com'') start)) =
       Some ''https://example.com''
   \<and> Call ''setup_notifications'' [''https://example.com'', ''ai-content-optimizer-1753843786''] \<in>
       set (trace (snd (deploy_mvp calm_world (AutonomousDeployer calm_world usual_credentials)
                         ''/tmp/mvp'' ''railway'' (Some ''example.com'') start)))
   \<and> Call ''setup_operations'' [''https://example.com'', ''ai-content-optimizer-1753843786''] \<in>
       set (trace (snd (deploy_mvp calm_world (AutonomousDeployer calm_world usual_credentials)
                         ''/tmp/mvp'' ''railway'' (Some ''example.com'') start)))
   \<and> Call ''_verify_deployment'' [''https://example.com''] \<in>
       set (trace (snd (deploy_mvp calm_world (AutonomousDeployer calm_world usual_credentials)
                         ''/tmp/mvp'' ''railway'' (Some ''example.com'') start)))"
proof -
  let ?url = "''https://ai-content-optimizer-1753843788.up.railway.app''"
  have domain_bound: "succeeded (fst (setup_domain w usual_credentials ''example.com'' ?url))"
    if "answer w GodaddyAvailable = Response 200 ''OK'' (Inr [])"
      and "answer w GodaddyRecords = Response 200 ''OK'' (Inr [])" for w
    using that
    by (simp add: setup_domain_def check_domain_availability_def configure_dns_def
          godaddy_ready_def get_default_def usual_credentials_def truthy_def get_def)
  have calm: "success (fst (deploy_mvp calm_world (AutonomousDeployer calm_world usual_credentials)
                     ''/tmp/mvp'' ''railway'' (Some ''example.com'') start))
   \<and> app_url (fst (deploy_mvp calm_world (AutonomousDeployer calm_world usual_credentials)
                     ''/tmp/mvp'' ''railway'' (Some ''example.com'') start)) =
       Some ''https://example.com''
   \<and> Call ''setup_notifications'' [''https://example.com'', ''ai-content-optimizer-1753843786''] \<in>
       set (trace (snd (deploy_mvp calm_world (AutonomousDeployer calm_world usual_credentials)
                         ''/tmp/mvp'' ''railway'' (Some ''example.com'') start)))
   \<and> Call ''setup_operations'' [''https://example.com'', ''ai-content-optimizer-1753843786''] \<in>
       set (trace (snd (deploy_mvp calm_world (AutonomousDeployer calm_world usual_credentials)
                         ''/tmp/mvp'' ''railway'' (Some ''example.com'') start)))
   \<and> Call ''_verify_deployment'' [''https://example.com''] \<in>
       set (trace (snd (deploy_mvp calm_world (AutonomousDeployer calm_world usual_credentials)
                         ''/tmp/mvp'' ''railway'' (Some ''example.com'') start)))"
  proof -
    let ?self = "AutonomousDeployer calm_world usual_credentials"
    have push: "fst (push_mvp_files calm_world ''/tmp/mvp''
                       ''https://github.com/acme/ai-content-optimizer-1753843786.git''
                       (files start)) = Pushed"
      by (simp add: calm_push)
    have registered: "''railway'' \<in> set (platforms ?self)"
      by (simp add: usual_platforms)
    have provisioned: "snd (adapter_result calm_world ''railway'') =
                         Provisioned ?url (Some ''svc-1'') None"
      by (simp add: adapter_result_def calm_world_def)
    have domain: "succeeded (fst (setup_domain calm_world (credentials ?self) ''example.com'' ?url))"
      unfolding usual_platforms by (rule domain_bound) (simp_all add: calm_world_def)
    have monitoring: "succeeded (fst (setup_monitoring calm_world (credentials ?self)
                        (''https://'' @ ''example.com'')
                        (''ai-content-optimizer-'' @ str_nat (clock_repo calm_world))))"
      unfolding usual_platforms
      by (subst monitoring_up [of calm_world "''OK''" "Inr []" "''OK''" "Inr []"])
         (simp_all add: calm_world_def)
    have clock: "clock_repo calm_world = 1753843786"
      by (simp add: calm_world_def)
    show ?thesis
      using custom_domain_is_served [OF calm_repository push registered provisioned _ domain]
        monitoring
      by (simp add: clock str_nat_clock)
  qed
  have starting: "succeeded (fst (setup_domain app_starting usual_credentials ''example.com'' ?url))
   \<and> \<not> succeeded (fst (setup_monitoring app_starting usual_credentials ''https://example.com''
                           ''ai-content-optimizer-1753843786''))
   \<and> success (fst (deploy_mvp app_starting (AutonomousDeployer app_starting usual_credentials)
                     ''/tmp/mvp'' ''railway'' (Some ''example.com'') start)) = False
   \<and> app_url (fst (deploy_mvp app_starting (AutonomousDeployer app_starting usual_credentials)
                     ''/tmp/mvp'' ''railway'' (Some ''example.com'') start)) = None
   \<and> last (trace (snd (deploy_mvp app_starting (AutonomousDeployer app_starting usual_credentials)
                          ''/tmp/mvp'' ''railway'' (Some ''example.com'') start))) =
       HttpGet ''https://example.com'' (Some 30)"
  proof -
    let ?self = "AutonomousDeployer app_starting usual_credentials"
    have repo: "fst (create_repository app_starting
                       (''ai-content-optimizer-'' @ str_nat (clock_repo app_starting))) =
                  Repository ''https://github.com/acme/ai-content-optimizer-1753843786''
                    ''https://github.com/acme/ai-content-optimizer-1753843786.git''"
      by (rule usual_repository) (simp add: app_starting_def calm_world_def)
    have push: "fst (push_mvp_files app_starting ''/tmp/mvp''
                       ''https://github.com/acme/ai-content-optimizer-1753843786.git''
                       (files start)) = Pushed"
      by (subst usual_push) (simp_all add: app_starting_def calm_world_def)
    have registered: "''railway'' \<in> set (platforms ?self)"
      by (simp add: usual_platforms)
    have provisioned: "snd (adapter_result app_starting ''railway'') =
                         Provisioned ?url (Some ''svc-1'') None"
      by (simp add: adapter_result_def app_starting_def calm_world_def)
    have domain: "succeeded (fst (setup_domain app_starting usual_credentials ''example.com'' ?url))"
      by (rule domain_bound) (simp_all add: app_starting_def calm_world_def)
    have domain': "succeeded (fst (setup_domain app_starting (credentials ?self)
                                     ''example.com'' ?url))"
      using domain by (simp add: usual_platforms)
    have silent: "setup_monitoring app_starting usual_credentials ''https://example.com'' name =
                    (Outcome False None,
                     [HttpGet ''https://example.com/api/health'' (Some 30),
                      HttpGet ''https://example.com'' (Some 30)])" for name
      by (simp add: setup_monitoring_def setup_health_check_monitoring_def
            setup_uptime_monitoring_def usual_credentials_def truthy_def get_def Let_def
            app_starting_def)
    have clock: "clock_repo app_starting = 1753843786"
      by (simp add: app_starting_def calm_world_def)
    show ?thesis
      using custom_domain_is_served [OF repo push registered provisioned _ domain'] domain
      by (simp add: clock str_nat_clock usual_platforms silent)
  qed
  show ?thesis
    using calm starting by simp
qed

section \<open>The email backend\<close>

text \<open>
  C9. For every credentials dictionary and whatever the services answer,
  \<^verbatim>\<open>setup_notifications\<close> sends exactly one request, to the first backend in the order
  Mailchimp, SendGrid, Mailgun whose key is set (not missing, not \<^verbatim>\<open>None\<close>, not empty),
  and no request to any other backend, also when that backend fails; when no key is set
  it sends no request and returns a failure.
\<close>

theorem one_email_backend:
  "snd (setup_notifications w creds url repo_name) =
     (if truthy (get creds ''MAILCHIMP_API_KEY'')
        then [HttpPost (''https://'' @ fstr (get_or creds ''MAILCHIMP_SERVER'' ''us19'') @
                        ''.api.mailchimp.com/3.0/campaigns'')]
      else if truthy (get creds ''SENDGRID_API_KEY'')
        then [HttpPost ''https://api.sendgrid.com/v3/templates'']
      else if truthy (get creds ''MAILGUN_API_KEY'')
        then [HttpGet (''https://api.mailgun.net/v3/'' @
                       fstr (get_or creds ''MAILGUN_DOMAIN'' ''sandbox.mailgun.org'') @
                       ''/stats/total'') None]
      else [])
   \<and> (if truthy (get creds ''MAILCHIMP_API_KEY'') \<or> truthy (get creds ''SENDGRID_API_KEY'') \<or>
          truthy (get creds ''MAILGUN_API_KEY'')
       then length (snd (setup_notifications w creds url repo_name)) = 1
       else setup_notifications w creds url repo_name =
              (Outcome False (Some ''No email service credentials available''), []))"
  by (simp add: setup_notifications_def setup_mailchimp_notifications_def
        setup_sendgrid_notifications_def setup_mailgun_notifications_def
        mailchimp_base_url_def mailgun_base_url_def)

theorem one_email_backend_witness:
  "snd (setup_notifications services_down two_mailers ''https://example.com''
          ''ai-content-optimizer-1753843786'') =
     [HttpPost ''https://api.sendgrid.com/v3/templates'']
   \<and> \<not> succeeded (fst (setup_notifications services_down two_mailers ''https://example.com''
                           ''ai-content-optimizer-1753843786''))
   \<and> setup_notifications calm_world [] ''https://example.com''
         ''ai-content-optimizer-1753843786'' =
       (Outcome False (Some ''No email service credentials available''), [])"
proof -
  have keys: "\<not> truthy (get two_mailers ''MAILCHIMP_API_KEY'')"
    "truthy (get two_mailers ''SENDGRID_API_KEY'')"
    by (simp_all add: two_mailers_def get_def truthy_def)
  have none: "\<not> truthy (get [] k)" for k
    by (simp add: get_def truthy_def)
  have failed: "\<not> succeeded (fst (setup_notifications services_down two_mailers
                  ''https://example.com'' ''ai-content-optimizer-1753843786''))"
    using keys
    by (simp add: setup_notifications_def setup_sendgrid_notifications_def services_down_def)
  show ?thesis
    using one_email_backend [of services_down two_mailers "''https://example.com''"
        "''ai-content-optimizer-1753843786''"]
      one_email_backend [of calm_world "[]" "''https://example.com''"
        "''ai-content-optimizer-1753843786''"]
      keys none failed
    by simp
qed

end
